theory Spec2Isabelle
  imports Complex_Main
begin

section \<open>uboSample: scene data, camera rig and the per-frame GPU protocol\<close>

text \<open>
  A shallow embedding of \<^verbatim>\<open>src/uboSample.cpp\<close>.

  Scalars. \<^verbatim>\<open>GLfloat\<close> is modelled by \<^typ>\<open>real\<close>: every arithmetic operation of the
  source is the exact operation on reals, so rounding, overflow to infinity and NaN are not
  part of the model. \<^verbatim>\<open>std::numeric_limits<float>::epsilon()\<close> is \<open>2\<^sup>-\<^sup>2\<^sup>3\<close>, and the
  literal \<^verbatim>\<open>3.1415927f\<close> is the decimal \<open>3.1415927\<close>. \<^verbatim>\<open>GLint\<close>, \<^verbatim>\<open>GLsizei\<close> and
  \<^verbatim>\<open>int\<close> are \<^typ>\<open>int\<close>; object names (\<^verbatim>\<open>GLuint\<close>) are \<^typ>\<open>nat\<close>, with \<open>0\<close> the
  name of no object.
\<close>

subsection \<open>Data model\<close>

type_synonym GLfloat = real

text \<open>\<^verbatim>\<open>using vec3 = std::array<GLfloat, 3>\<close> and \<^verbatim>\<open>using vec4 = std::array<GLfloat, 4>\<close>:
  fixed-size arrays, so tuples; \<^verbatim>\<open>a[0]\<close>, \<^verbatim>\<open>a[1]\<close>, \<^verbatim>\<open>a[2]\<close> are the components.\<close>

type_synonym vec3 = "GLfloat \<times> GLfloat \<times> GLfloat"
type_synonym vec4 = "GLfloat \<times> GLfloat \<times> GLfloat \<times> GLfloat"

record Camera =
  origin :: vec3
  right :: vec3
  up :: vec3
  position :: vec3

record Light =
  ambient :: vec4
  diffuse :: vec4
  specular :: vec4
  position :: vec4

record Material =
  ambient :: vec4
  diffuse :: vec4
  specular :: vec4
  shininess :: GLfloat

record Sphere =
  center :: vec3
  radius :: GLfloat
  materialIndex :: int

subsection \<open>Vector arithmetic\<close>

fun dot :: "vec3 \<Rightarrow> vec3 \<Rightarrow> GLfloat" where
  "dot (a0, a1, a2) (b0, b1, b2) = a0 * b0 + a1 * b1 + a2 * b2"

fun cross :: "vec3 \<Rightarrow> vec3 \<Rightarrow> vec3" where
  "cross (a0, a1, a2) (b0, b1, b2) =
     (let x = a1 * b2 - a2 * b1;
          y = a2 * b0 - a0 * b2;
          z = a0 * b1 - a1 * b0
      in (x, y, z))"

definition length_vec :: "vec3 \<Rightarrow> GLfloat" where
  "length_vec a = sqrt (dot a a)"

definition epsilon :: GLfloat where
  "epsilon = 1 / 2 ^ 23"

fun normalize_vec :: "vec3 \<Rightarrow> vec3" where
  "normalize_vec (a0, a1, a2) =
     (let len = length_vec (a0, a1, a2)
      in if \<bar>len\<bar> < epsilon then (a0, a1, a2)
         else (a0 / len, a1 / len, a2 / len))"

subsection \<open>Camera rig\<close>

text \<open>The view direction computed in the first statement of \<^verbatim>\<open>setCamera\<close>.\<close>

fun forward :: "vec3 \<Rightarrow> vec3 \<Rightarrow> vec3" where
  "forward (p0, p1, p2) (t0, t1, t2) = normalize_vec (t0 - p0, t1 - p1, t2 - p2)"

definition focal :: "GLfloat \<Rightarrow> GLfloat" where
  "focal fovy = 1 / tan (fovy * 0.5 * 3.1415927 / 180)"

text \<open>\<^verbatim>\<open>setCamera(camera, position, target, up, fovy)\<close>: the camera is updated in place, field
  by field, in the order of the source; \<^verbatim>\<open>camera.up\<close> reads the \<^verbatim>\<open>camera.right\<close> just
  written.\<close>

definition setCamera :: "Camera \<Rightarrow> vec3 \<Rightarrow> vec3 \<Rightarrow> vec3 \<Rightarrow> GLfloat \<Rightarrow> Camera" where
  "setCamera camera pos target upv fovy =
     (let fwd = forward pos target;
          camera = camera\<lparr>Camera.right := normalize_vec (cross fwd upv)\<rparr>;
          camera = camera\<lparr>Camera.up := cross (Camera.right camera) fwd\<rparr>;
          f = focal fovy;
          camera = camera\<lparr>Camera.origin :=
            (fst pos + fst fwd * f,
             fst (snd pos) + fst (snd fwd) * f,
             snd (snd pos) + snd (snd fwd) * f)\<rparr>
      in camera\<lparr>Camera.position := pos\<rparr>)"

subsection \<open>Memory layout of the device-mirrored records\<close>

text \<open>
  The member types of the four records with their sizes and natural alignments in bytes
  (4-byte \<^verbatim>\<open>GLfloat\<close>, \<^verbatim>\<open>float\<close> and \<^verbatim>\<open>int\<close>; a \<^verbatim>\<open>std::array\<close> of floats has the
  alignment of a float), and the number of components of each.
\<close>

datatype member_type = T_vec3 | T_vec4 | T_float | T_int

fun sizeof_type :: "member_type \<Rightarrow> nat" where
  "sizeof_type T_vec3 = 12"
| "sizeof_type T_vec4 = 16"
| "sizeof_type T_float = 4"
| "sizeof_type T_int = 4"

fun alignof_type :: "member_type \<Rightarrow> nat" where
  "alignof_type T_vec3 = 4"
| "alignof_type T_vec4 = 4"
| "alignof_type T_float = 4"
| "alignof_type T_int = 4"

fun components :: "member_type \<Rightarrow> nat" where
  "components T_vec3 = 3"
| "components T_vec4 = 4"
| "components T_float = 1"
| "components T_int = 1"

text \<open>A member declaration: its name, its type and its \<^verbatim>\<open>alignas\<close> specifier, if any.\<close>

record member =
  member_name :: string
  member_type :: member_type
  member_alignas :: "nat option"

definition member_align :: "member \<Rightarrow> nat" where
  "member_align m =
     (case member_alignas m of
        None \<Rightarrow> alignof_type (member_type m)
      | Some n \<Rightarrow> max n (alignof_type (member_type m)))"

definition align_up :: "nat \<Rightarrow> nat \<Rightarrow> nat" where
  "align_up off a = ((off + a - 1) div a) * a"

text \<open>The layout of a standard-layout struct: members in declaration order, each at the
  first offset at or after the end of the previous one that its alignment divides. An entry
  is (name, offset, size).\<close>

fun layout :: "nat \<Rightarrow> member list \<Rightarrow> (string \<times> nat \<times> nat) list" where
  "layout off [] = []"
| "layout off (m # ms) =
     (let ofs = align_up off (member_align m)
      in (member_name m, ofs, sizeof_type (member_type m))
           # layout (ofs + sizeof_type (member_type m)) ms)"

fun layout_end :: "nat \<Rightarrow> member list \<Rightarrow> nat" where
  "layout_end off [] = off"
| "layout_end off (m # ms) =
     layout_end (align_up off (member_align m) + sizeof_type (member_type m)) ms"

definition struct_align :: "member list \<Rightarrow> nat" where
  "struct_align ms = fold max (map member_align ms) 1"

definition sizeof_struct :: "member list \<Rightarrow> nat" where
  "sizeof_struct ms = align_up (layout_end 0 ms) (struct_align ms)"

definition Camera_members :: "member list" where
  "Camera_members =
     [\<lparr>member_name = ''origin'', member_type = T_vec3, member_alignas = Some 16\<rparr>,
      \<lparr>member_name = ''right'', member_type = T_vec3, member_alignas = Some 16\<rparr>,
      \<lparr>member_name = ''up'', member_type = T_vec3, member_alignas = Some 16\<rparr>,
      \<lparr>member_name = ''position'', member_type = T_vec3, member_alignas = Some 16\<rparr>]"

definition Light_members :: "member list" where
  "Light_members =
     [\<lparr>member_name = ''ambient'', member_type = T_vec4, member_alignas = Some 16\<rparr>,
      \<lparr>member_name = ''diffuse'', member_type = T_vec4, member_alignas = Some 16\<rparr>,
      \<lparr>member_name = ''specular'', member_type = T_vec4, member_alignas = Some 16\<rparr>,
      \<lparr>member_name = ''position'', member_type = T_vec4, member_alignas = Some 16\<rparr>]"

definition Material_members :: "member list" where
  "Material_members =
     [\<lparr>member_name = ''ambient'', member_type = T_vec4, member_alignas = Some 16\<rparr>,
      \<lparr>member_name = ''diffuse'', member_type = T_vec4, member_alignas = Some 16\<rparr>,
      \<lparr>member_name = ''specular'', member_type = T_vec4, member_alignas = Some 16\<rparr>,
      \<lparr>member_name = ''shininess'', member_type = T_float, member_alignas = Some 4\<rparr>]"

definition Sphere_members :: "member list" where
  "Sphere_members =
     [\<lparr>member_name = ''center'', member_type = T_vec3, member_alignas = Some 16\<rparr>,
      \<lparr>member_name = ''radius'', member_type = T_float, member_alignas = None\<rparr>,
      \<lparr>member_name = ''materialIndex'', member_type = T_int, member_alignas = None\<rparr>]"

text \<open>The offsets of the multi-component members and of the scalar members of a record.\<close>

definition vector_offsets :: "member list \<Rightarrow> nat list" where
  "vector_offsets ms =
     map (\<lambda>(m, n, off, sz). off) (filter (\<lambda>(m, e). 1 < components (member_type m))
       (zip ms (layout 0 ms)))"

definition scalar_offsets :: "member list \<Rightarrow> nat list" where
  "scalar_offsets ms =
     map (\<lambda>(m, n, off, sz). off) (filter (\<lambda>(m, e). components (member_type m) = 1)
       (zip ms (layout 0 ms)))"

text \<open>
  Modelled from the spec: the block declarations of the compute kernel
  \<^verbatim>\<open>raycast.comp\<close>, which is not among the sources. The kernel's block holds the same
  members in the same order; a member of several components is placed at the next offset
  that 16 divides, a scalar member at the next offset that 4 divides, and an array element
  of a block with a multi-component member takes a multiple of 16 bytes.
\<close>

fun block_layout :: "nat \<Rightarrow> (string \<times> member_type) list \<Rightarrow> (string \<times> nat \<times> nat) list" where
  "block_layout off [] = []"
| "block_layout off ((n, ty) # ms) =
     (let ofs = align_up off (if 1 < components ty then 16 else 4)
      in (n, ofs, sizeof_type ty) # block_layout (ofs + sizeof_type ty) ms)"

fun block_end :: "nat \<Rightarrow> (string \<times> member_type) list \<Rightarrow> nat" where
  "block_end off [] = off"
| "block_end off ((n, ty) # ms) =
     block_end (align_up off (if 1 < components ty then 16 else 4) + sizeof_type ty) ms"

definition block_stride :: "(string \<times> member_type) list \<Rightarrow> nat" where
  "block_stride ms =
     align_up (block_end 0 ms) (if list_ex (\<lambda>(n, ty). 1 < components ty) ms then 16 else 4)"

definition kernel_block :: "member list \<Rightarrow> (string \<times> member_type) list" where
  "kernel_block ms = map (\<lambda>m. (member_name m, member_type m)) ms"

text \<open>The bytes of a record as the device sees them, in units of four bytes: a float, an
  integer, or padding.\<close>

datatype cell = FloatCell GLfloat | IntCell int | PadCell

fun vec3_cells :: "vec3 \<Rightarrow> cell list" where
  "vec3_cells (x, y, z) = [FloatCell x, FloatCell y, FloatCell z]"

fun vec4_cells :: "vec4 \<Rightarrow> cell list" where
  "vec4_cells (x, y, z, w) = [FloatCell x, FloatCell y, FloatCell z, FloatCell w]"

definition Camera_cells :: "Camera \<Rightarrow> cell list" where
  "Camera_cells c =
     vec3_cells (Camera.origin c) @ [PadCell] @ vec3_cells (Camera.right c) @ [PadCell] @
     vec3_cells (Camera.up c) @ [PadCell] @ vec3_cells (Camera.position c) @ [PadCell]"

definition Light_cells :: "Light \<Rightarrow> cell list" where
  "Light_cells l =
     vec4_cells (Light.ambient l) @ vec4_cells (Light.diffuse l) @
     vec4_cells (Light.specular l) @ vec4_cells (Light.position l)"

definition Material_cells :: "Material \<Rightarrow> cell list" where
  "Material_cells m =
     vec4_cells (Material.ambient m) @ vec4_cells (Material.diffuse m) @
     vec4_cells (Material.specular m) @ [FloatCell (Material.shininess m), PadCell, PadCell, PadCell]"

definition Sphere_cells :: "Sphere \<Rightarrow> cell list" where
  "Sphere_cells s =
     vec3_cells (Sphere.center s) @
     [FloatCell (Sphere.radius s), IntCell (Sphere.materialIndex s), PadCell, PadCell, PadCell]"

subsection \<open>The graphics library\<close>

text \<open>
  The calls the program issues, as a command stream. Arguments that the program always
  passes as the same constant are left out of a constructor: \<^verbatim>\<open>GL_STATIC_DRAW\<close> of
  \<^verbatim>\<open>glBufferData\<close>; level 0, not layered, layer 0, \<^verbatim>\<open>GL_WRITE_ONLY\<close> and
  \<^verbatim>\<open>GL_RGBA8\<close> of \<^verbatim>\<open>glBindImageTexture\<close>; \<^verbatim>\<open>GL_SHADER_IMAGE_ACCESS_BARRIER_BIT\<close> of
  \<^verbatim>\<open>glMemoryBarrier\<close>; \<^verbatim>\<open>GL_COLOR_BUFFER_BIT\<close> and \<^verbatim>\<open>GL_LINEAR\<close> of
  \<^verbatim>\<open>glBlitFramebuffer\<close>. \<open>TextureSetup\<close> stands for the \<^verbatim>\<open>glTexImage2D\<close> call and the
  four \<^verbatim>\<open>glTexParameteri\<close> calls on the bound texture. \<open>SwapBuffers\<close> is
  \<^verbatim>\<open>window.swapBuffers()\<close>.
\<close>

datatype buffer_target = GL_UNIFORM_BUFFER | GL_SHADER_STORAGE_BUFFER

datatype framebuffer_target = GL_FRAMEBUFFER | GL_READ_FRAMEBUFFER

datatype gl_call =
    BindBuffer buffer_target nat
  | BufferData buffer_target nat "cell list"
  | BufferSubData buffer_target nat nat "cell list"
  | BindBufferBase buffer_target nat nat
  | UseProgram nat
  | Uniform1i int int
  | BindImageTexture nat nat
  | DispatchCompute nat nat nat
  | MemoryBarrier
  | BindTexture nat
  | TextureSetup int int
  | BindFramebuffer framebuffer_target nat
  | FramebufferTexture2D nat
  | BlitFramebuffer int int int int int int int int
  | SwapBuffers
  | DeleteFramebuffers nat
  | DeleteTextures nat
  | DeleteBuffers nat
  | DeleteProgram nat

text \<open>
  The part of the context state that the program's calls read or write and that the
  properties below observe: the names handed out so far, the data store of each buffer
  object (in 4-byte cells), the buffer bound to each target, the buffer bound to each
  indexed binding point of each target, the texture bound to each image unit, the program
  in use, and the log of the calls issued. Textures, framebuffers and the contents of the
  image are not tracked.
\<close>

record gl_state =
  buffer_names :: nat
  texture_names :: nat
  framebuffer_names :: nat
  buffer_store :: "nat \<Rightarrow> cell list option"
  buffer_binding :: "buffer_target \<Rightarrow> nat"
  indexed_binding :: "buffer_target \<Rightarrow> nat \<Rightarrow> nat"
  image_binding :: "nat \<Rightarrow> nat"
  current_program :: nat
  calls :: "gl_call list"

definition gl_initial :: gl_state where
  "gl_initial =
     \<lparr>buffer_names = 0, texture_names = 0, framebuffer_names = 0,
      buffer_store = (\<lambda>b. None), buffer_binding = (\<lambda>t. 0),
      indexed_binding = (\<lambda>t i. 0), image_binding = (\<lambda>u. 0),
      current_program = 0, calls = []\<rparr>"

text \<open>\<^verbatim>\<open>glGenBuffers(1, &b)\<close>, \<^verbatim>\<open>glGenTextures(1, &t)\<close>, \<^verbatim>\<open>glGenFramebuffers(1, &f)\<close>:
  a name that is not zero and was not handed out before.\<close>

definition glGenBuffers :: "gl_state \<Rightarrow> nat \<times> gl_state" where
  "glGenBuffers g = (Suc (buffer_names g), g\<lparr>buffer_names := Suc (buffer_names g)\<rparr>)"

definition glGenTextures :: "gl_state \<Rightarrow> nat \<times> gl_state" where
  "glGenTextures g = (Suc (texture_names g), g\<lparr>texture_names := Suc (texture_names g)\<rparr>)"

definition glGenFramebuffers :: "gl_state \<Rightarrow> nat \<times> gl_state" where
  "glGenFramebuffers g =
     (Suc (framebuffer_names g), g\<lparr>framebuffer_names := Suc (framebuffer_names g)\<rparr>)"

text \<open>
  The effect of one call. \<^verbatim>\<open>glBufferData\<close> and \<^verbatim>\<open>glBufferSubData\<close> act on the buffer
  bound to the target and do nothing when none is bound; \<^verbatim>\<open>glBufferSubData\<close> does nothing
  either when the range reaches beyond the data store (the library reports an error, which
  the program never reads). \<^verbatim>\<open>glBindBufferBase\<close> binds the buffer to the indexed binding
  point and to the target itself. Sizes and offsets are in bytes.
\<close>

fun gl_exec :: "gl_call \<Rightarrow> gl_state \<Rightarrow> gl_state" where
  "gl_exec (BindBuffer t b) g = g\<lparr>buffer_binding := (buffer_binding g)(t := b)\<rparr>"
| "gl_exec (BufferData t sz data) g =
     (if buffer_binding g t = 0 then g
      else g\<lparr>buffer_store := (buffer_store g)(buffer_binding g t \<mapsto> take (sz div 4) data)\<rparr>)"
| "gl_exec (BufferSubData t offset sz data) g =
     (if buffer_binding g t = 0 then g
      else case buffer_store g (buffer_binding g t) of
        None \<Rightarrow> g
      | Some old \<Rightarrow>
          if 4 * length old < offset + sz then g
          else g\<lparr>buffer_store := (buffer_store g)(buffer_binding g t \<mapsto>
                 take (offset div 4) old @ take (sz div 4) data
                   @ drop ((offset + sz) div 4) old)\<rparr>)"
| "gl_exec (BindBufferBase t i b) g =
     g\<lparr>indexed_binding := (indexed_binding g)(t := (indexed_binding g t)(i := b)),
       buffer_binding := (buffer_binding g)(t := b)\<rparr>"
| "gl_exec (UseProgram p) g = g\<lparr>current_program := p\<rparr>"
| "gl_exec (BindImageTexture u tex) g = g\<lparr>image_binding := (image_binding g)(u := tex)\<rparr>"
| "gl_exec (DeleteBuffers b) g = g\<lparr>buffer_store := (buffer_store g)(b := None)\<rparr>"
| "gl_exec c g = g"

definition issue :: "gl_call \<Rightarrow> gl_state \<Rightarrow> gl_state" where
  "issue c g = (gl_exec c g)\<lparr>calls := calls g @ [c]\<rparr>"

definition gl_run :: "gl_call list \<Rightarrow> gl_state \<Rightarrow> gl_state" where
  "gl_run cs g = fold issue cs g"

subsection \<open>The edit panel\<close>

text \<open>
  What the immediate-mode panel reports in one frame: for each control, \<open>None\<close> when the
  control reports no change (it returns \<^verbatim>\<open>false\<close> and leaves the value alone) and
  \<open>Some v\<close> when it reports a change to \<open>v\<close>. \<open>ev_open\<close> is the value
  \<^verbatim>\<open>ImGui::Begin\<close> leaves in \<^verbatim>\<open>showMenu\<close> (false once the panel's close button is hit).
\<close>

record ui_events =
  ev_open :: bool
  ev_position :: "vec3 option"
  ev_target :: "vec3 option"
  ev_up :: "vec3 option"
  ev_fovy :: "GLfloat option"
  ev_targetLight :: "int option"
  ev_light_position :: "vec3 option"
  ev_light_ambient :: "vec3 option"
  ev_light_diffuse :: "vec3 option"
  ev_light_specular :: "vec3 option"
  ev_targetMaterial :: "int option"
  ev_material_ambient :: "vec3 option"
  ev_material_diffuse :: "vec3 option"
  ev_material_specular :: "vec3 option"
  ev_material_shininess :: "GLfloat option"

text \<open>A frame in which no control reports a change and the panel stays open.\<close>

definition ui_none :: ui_events where
  "ui_none =
     \<lparr>ev_open = True, ev_position = None, ev_target = None, ev_up = None, ev_fovy = None,
      ev_targetLight = None, ev_light_position = None, ev_light_ambient = None,
      ev_light_diffuse = None, ev_light_specular = None, ev_targetMaterial = None,
      ev_material_ambient = None, ev_material_diffuse = None, ev_material_specular = None,
      ev_material_shininess = None\<rparr>"

text \<open>The controls: each returns the value it leaves behind and its \<^verbatim>\<open>changed\<close> result.
  \<^verbatim>\<open>DragFloat3\<close> and \<^verbatim>\<open>ColorEdit3\<close> write three floats through the pointer they are
  given; on the \<^verbatim>\<open>data()\<close> of a \<^verbatim>\<open>vec4\<close> these are its first three components.
  \<^verbatim>\<open>DragFloat\<close> and \<^verbatim>\<open>DragInt\<close> are given a lower and an upper bound and keep the value
  they write within them; this is the contract taken of the panel, which is not part of the
  sources. With it the indices \<^verbatim>\<open>targetLight\<close> and \<^verbatim>\<open>targetMaterial\<close> stay inside their
  arrays (see \<open>main_inv\<close>), and the unchecked \<^verbatim>\<open>light[targetLight]\<close> and
  \<^verbatim>\<open>material[targetMaterial]\<close> of the source never read out of range.\<close>

definition DragFloat3 :: "vec3 option \<Rightarrow> vec3 \<Rightarrow> vec3 \<times> bool" where
  "DragFloat3 ev v = (case ev of None \<Rightarrow> (v, False) | Some v' \<Rightarrow> (v', True))"

fun write3 :: "vec3 \<Rightarrow> vec4 \<Rightarrow> vec4" where
  "write3 (x', y', z') (x, y, z, w) = (x', y', z', w)"

definition DragFloat3_vec4 :: "vec3 option \<Rightarrow> vec4 \<Rightarrow> vec4 \<times> bool" where
  "DragFloat3_vec4 ev v = (case ev of None \<Rightarrow> (v, False) | Some v' \<Rightarrow> (write3 v' v, True))"

definition ColorEdit3 :: "vec3 option \<Rightarrow> vec4 \<Rightarrow> vec4 \<times> bool" where
  "ColorEdit3 ev v = (case ev of None \<Rightarrow> (v, False) | Some v' \<Rightarrow> (write3 v' v, True))"

definition DragFloat :: "GLfloat option \<Rightarrow> GLfloat \<Rightarrow> GLfloat \<Rightarrow> GLfloat \<Rightarrow> GLfloat \<times> bool" where
  "DragFloat ev v_min v_max v =
     (case ev of None \<Rightarrow> (v, False) | Some v' \<Rightarrow> (max v_min (min v_max v'), True))"

definition DragInt :: "int option \<Rightarrow> int \<Rightarrow> int \<Rightarrow> int \<Rightarrow> int \<times> bool" where
  "DragInt ev v_min v_max v =
     (case ev of None \<Rightarrow> (v, False) | Some v' \<Rightarrow> (max v_min (min v_max v'), True))"

subsection \<open>The application: \<^verbatim>\<open>GgApp::main\<close>\<close>

definition width :: int where
  "width = 960"

definition height :: int where
  "height = 540"

text \<open>\<^verbatim>\<open>sizeof camera\<close>, \<^verbatim>\<open>sizeof light\<close>, \<^verbatim>\<open>sizeof material\<close>, \<^verbatim>\<open>sizeof sphere\<close>: one
  \<^verbatim>\<open>Camera\<close> and arrays of two records each.\<close>

definition sizeof_camera :: nat where
  "sizeof_camera = sizeof_struct Camera_members"

definition sizeof_light :: nat where
  "sizeof_light = 2 * sizeof_struct Light_members"

definition sizeof_material :: nat where
  "sizeof_material = 2 * sizeof_struct Material_members"

definition sizeof_sphere :: nat where
  "sizeof_sphere = 2 * sizeof_struct Sphere_members"

text \<open>The two exceptions \<^verbatim>\<open>main\<close> throws (\<^verbatim>\<open>std::runtime_error\<close>, with the messages
  "failed to create the window" and "failed to load the shader", in Japanese).\<close>

datatype error = WindowCreationFailed | ShaderLoadFailed

text \<open>
  What the collaborators answer at startup: whether \<^verbatim>\<open>window.get()\<close> is not null, the
  handle \<^verbatim>\<open>ggLoadComputeShader\<close> returns, and the three uniform locations. And what they
  answer in one iteration of the loop: the value of \<^verbatim>\<open>window\<close> in the loop condition,
  whether the tab key is down, what the panel reports, and the size of the window.
\<close>

record startup_env =
  env_window :: bool
  env_shader :: nat
  env_lightCountLoc :: int
  env_sphereCountLoc :: int
  env_imageLoc :: int

record frame_obs =
  live :: bool
  tab_key :: bool
  ui :: ui_events
  window_width :: int
  window_height :: int

text \<open>The locals of \<^verbatim>\<open>main\<close> that are set once, before the loop.\<close>

record handles =
  shader :: nat
  lightCountLoc :: int
  sphereCountLoc :: int
  imageLoc :: int
  cameraUbo :: nat
  lightUbo :: nat
  lightCount :: int
  materialUbo :: nat
  materialCount :: int
  sphereSsbo :: nat
  sphereCount :: int
  texture :: nat
  framebuffer :: nat

definition ImageUnit :: nat where
  "ImageUnit = 0"

text \<open>The locals of \<^verbatim>\<open>main\<close> that the loop body may write.\<close>

record scene =
  position :: vec3
  target :: vec3
  up :: vec3
  fovy :: GLfloat
  camera :: Camera
  light :: "Light list"
  targetLight :: int
  material :: "Material list"
  targetMaterial :: int
  sphere :: "Sphere list"
  showMenu :: bool

text \<open>The three sections of the panel. Each returns the locals it leaves and the calls it
  issues. The \<^verbatim>\<open>|=\<close> of the source evaluates every control.\<close>

definition camera_section :: "handles \<Rightarrow> ui_events \<Rightarrow> scene \<Rightarrow> scene \<times> gl_call list" where
  "camera_section h e sc =
     (let (p, c1) = DragFloat3 (ev_position e) (scene.position sc);
          (t, c2) = DragFloat3 (ev_target e) (scene.target sc);
          (u, c3) = DragFloat3 (ev_up e) (scene.up sc);
          (f, c4) = DragFloat (ev_fovy e) 1 180 (scene.fovy sc);
          cameraChanged = (c1 \<or> c2 \<or> c3 \<or> c4);
          sc = sc\<lparr>scene.position := p, scene.target := t, scene.up := u, scene.fovy := f\<rparr>
      in if cameraChanged then
           (let sc = sc\<lparr>camera := setCamera (camera sc) p t u f\<rparr>
            in (sc, [BindBuffer GL_UNIFORM_BUFFER (cameraUbo h),
                     BufferSubData GL_UNIFORM_BUFFER 0 sizeof_camera (Camera_cells (camera sc)),
                     BindBuffer GL_UNIFORM_BUFFER 0]))
         else (sc, []))"

definition light_section :: "handles \<Rightarrow> ui_events \<Rightarrow> scene \<Rightarrow> scene \<times> gl_call list" where
  "light_section h e sc =
     (let (tl, c0) = DragInt (ev_targetLight e) 0 (lightCount h - 1) (targetLight sc);
          l = light sc ! nat tl;
          (p, c1) = DragFloat3_vec4 (ev_light_position e) (Light.position l);
          (a, c2) = ColorEdit3 (ev_light_ambient e) (Light.ambient l);
          (d, c3) = ColorEdit3 (ev_light_diffuse e) (Light.diffuse l);
          (s, c4) = ColorEdit3 (ev_light_specular e) (Light.specular l);
          lightChanged = (c1 \<or> c2 \<or> c3 \<or> c4);
          l = l\<lparr>Light.position := p, Light.ambient := a, Light.diffuse := d,
                Light.specular := s\<rparr>;
          sc = sc\<lparr>targetLight := tl, light := (light sc)[nat tl := l]\<rparr>
      in if lightChanged then
           (sc, [BindBuffer GL_UNIFORM_BUFFER (lightUbo h),
                 BufferSubData GL_UNIFORM_BUFFER 0 sizeof_light
                   (concat (map Light_cells (light sc))),
                 BindBuffer GL_UNIFORM_BUFFER 0])
         else (sc, []))"

definition material_section :: "handles \<Rightarrow> ui_events \<Rightarrow> scene \<Rightarrow> scene \<times> gl_call list" where
  "material_section h e sc =
     (let (tm, c0) = DragInt (ev_targetMaterial e) 0 (materialCount h - 1) (targetMaterial sc);
          m = material sc ! nat tm;
          (a, c1) = ColorEdit3 (ev_material_ambient e) (Material.ambient m);
          (d, c2) = ColorEdit3 (ev_material_diffuse e) (Material.diffuse m);
          (s, c3) = ColorEdit3 (ev_material_specular e) (Material.specular m);
          (n, c4) = DragFloat (ev_material_shininess e) 1 1000 (Material.shininess m);
          materialChanged = (c1 \<or> c2 \<or> c3 \<or> c4);
          m = m\<lparr>Material.ambient := a, Material.diffuse := d, Material.specular := s,
                Material.shininess := n\<rparr>;
          sc = sc\<lparr>targetMaterial := tm, material := (material sc)[nat tm := m]\<rparr>
      in if materialChanged then
           (sc, [BindBuffer GL_UNIFORM_BUFFER (materialUbo h),
                 BufferSubData GL_UNIFORM_BUFFER 0 sizeof_material
                   (concat (map Material_cells (material sc))),
                 BindBuffer GL_UNIFORM_BUFFER 0])
         else (sc, []))"

text \<open>The body of \<^verbatim>\<open>if (showMenu)\<close>: \<^verbatim>\<open>ImGui::Begin\<close> may clear \<^verbatim>\<open>showMenu\<close>; the three
  sections follow in any case.\<close>

definition menu :: "handles \<Rightarrow> ui_events \<Rightarrow> scene \<Rightarrow> scene \<times> gl_call list" where
  "menu h e sc =
     (let sc = sc\<lparr>showMenu := ev_open e\<rparr>;
          (sc, cs1) = camera_section h e sc;
          (sc, cs2) = light_section h e sc;
          (sc, cs3) = material_section h e sc
      in (sc, cs1 @ cs2 @ cs3))"

text \<open>The calls of the loop body after the panel: binding, dispatch, barrier, unbinding;
  then the copy to the window and the swap.\<close>

definition dispatch_calls :: "handles \<Rightarrow> gl_call list" where
  "dispatch_calls h =
     [BindBufferBase GL_SHADER_STORAGE_BUFFER 0 (sphereSsbo h),
      BindBufferBase GL_UNIFORM_BUFFER 1 (cameraUbo h),
      BindBufferBase GL_UNIFORM_BUFFER 2 (lightUbo h),
      BindBufferBase GL_UNIFORM_BUFFER 3 (materialUbo h),
      UseProgram (shader h),
      Uniform1i (lightCountLoc h) (lightCount h),
      Uniform1i (sphereCountLoc h) (sphereCount h),
      Uniform1i (imageLoc h) (int ImageUnit),
      BindImageTexture ImageUnit (texture h),
      DispatchCompute (nat width) (nat height) 1,
      MemoryBarrier,
      BindImageTexture ImageUnit 0,
      UseProgram 0,
      BindBufferBase GL_SHADER_STORAGE_BUFFER 0 0,
      BindBufferBase GL_UNIFORM_BUFFER 1 0,
      BindBufferBase GL_UNIFORM_BUFFER 2 0,
      BindBufferBase GL_UNIFORM_BUFFER 3 0]"

definition blit_calls :: "handles \<Rightarrow> frame_obs \<Rightarrow> gl_call list" where
  "blit_calls h ob =
     [BindFramebuffer GL_READ_FRAMEBUFFER (framebuffer h),
      BlitFramebuffer 0 0 width height 0 0 (window_width ob) (window_height ob),
      BindFramebuffer GL_READ_FRAMEBUFFER 0]"

text \<open>One iteration of the loop body: the locals it leaves and the calls it issues, in
  order.\<close>

definition frame :: "handles \<Rightarrow> frame_obs \<Rightarrow> scene \<Rightarrow> scene \<times> gl_call list" where
  "frame h ob sc =
     (let sc = sc\<lparr>showMenu := (showMenu sc \<or> tab_key ob)\<rparr>;
          (sc, cs) = (if showMenu sc then menu h (ui ob) sc else (sc, []))
      in (sc, cs @ dispatch_calls h @ blit_calls h ob @ [SwapBuffers]))"

definition frame_step :: "handles \<Rightarrow> frame_obs \<Rightarrow> scene \<times> gl_state \<Rightarrow> scene \<times> gl_state" where
  "frame_step h ob s =
     (let (sc, cs) = frame h ob (fst s) in (sc, gl_run cs (snd s)))"

text \<open>
  \<^verbatim>\<open>while (window) { ... }\<close> over the observations of a run, one per evaluation of the
  loop condition. The loop ends at the first observation that is not live. \<open>None\<close>: the
  observations are used up and the loop is still running.
\<close>

fun main_loop :: "handles \<Rightarrow> frame_obs list \<Rightarrow> scene \<times> gl_state \<Rightarrow> (scene \<times> gl_state) option" where
  "main_loop h [] s = None"
| "main_loop h (ob # obs) s =
     (if live ob then main_loop h obs (frame_step h ob s) else Some s)"

text \<open>The state at the head of the loop after the iterations for the given observations.\<close>

definition after_frames :: "handles \<Rightarrow> frame_obs list \<Rightarrow> scene \<times> gl_state \<Rightarrow> scene \<times> gl_state" where
  "after_frames h obs s = fold (frame_step h) obs s"

text \<open>The pattern \<^verbatim>\<open>glGenBuffers; glBindBuffer; glBufferData; glBindBuffer(target, 0)\<close>
  that creates each of the four buffers.\<close>

definition create_buffer :: "buffer_target \<Rightarrow> nat \<Rightarrow> cell list \<Rightarrow> gl_state \<Rightarrow> nat \<times> gl_state" where
  "create_buffer t sz data g =
     (let (b, g) = glGenBuffers g
      in (b, gl_run [BindBuffer t b, BufferData t sz data, BindBuffer t 0] g))"

text \<open>\<^verbatim>\<open>Camera camera;\<close> is not initialised; \<^verbatim>\<open>setCamera\<close> writes each of its fields
  before any is read.\<close>

definition Camera_uninitialized :: Camera where
  "Camera_uninitialized =
     \<lparr>Camera.origin = (0, 0, 0), right = (0, 0, 0), up = (0, 0, 0), position = (0, 0, 0)\<rparr>"

definition light_initial :: "Light list" where
  "light_initial =
     [\<lparr>Light.ambient = (0.2, 0.2, 0.2, 1.0), diffuse = (1.0, 1.0, 1.0, 0.0),
       specular = (1.0, 1.0, 1.0, 0.0), position = (3.0, 4.0, 5.0, 1.0)\<rparr>,
      \<lparr>Light.ambient = (0.1, 0.1, 0.0, 1.0), diffuse = (0.5, 0.5, 0.0, 0.0),
       specular = (0.5, 0.5, 0.0, 0.0), position = (-5.0, 1.0, 3.0, 1.0)\<rparr>]"

definition material_initial :: "Material list" where
  "material_initial =
     [\<lparr>Material.ambient = (0.6, 0.1, 0.1, 1.0), diffuse = (0.6, 0.1, 0.1, 0.0),
       specular = (0.3, 0.3, 0.3, 0.0), shininess = 100.0\<rparr>,
      \<lparr>Material.ambient = (0.1, 0.1, 0.6, 1.0), diffuse = (0.1, 0.1, 0.6, 0.0),
       specular = (0.3, 0.3, 0.3, 0.0), shininess = 100.0\<rparr>]"

definition sphere_initial :: "Sphere list" where
  "sphere_initial =
     [\<lparr>center = (1.0, 0.0, -2.0), radius = 1.0, materialIndex = 0\<rparr>,
      \<lparr>center = (-1.0, 0.0, -1.0), radius = 1.0, materialIndex = 1\<rparr>]"

text \<open>\<^verbatim>\<open>main\<close> from the uniform locations to the head of the loop.\<close>

definition init :: "startup_env \<Rightarrow> handles \<times> scene \<times> gl_state" where
  "init env =
     (let g = gl_initial;
          pos = (0.0, 0.0, 2.0);
          tgt = (0.0, 0.0, 0.0);
          upv = (0.0, 1.0, 0.0);
          fov = 60.0;
          cam = setCamera Camera_uninitialized pos tgt upv fov;
          (cameraUbo, g) = create_buffer GL_UNIFORM_BUFFER sizeof_camera (Camera_cells cam) g;
          (lightUbo, g) = create_buffer GL_UNIFORM_BUFFER sizeof_light
             (concat (map Light_cells light_initial)) g;
          (materialUbo, g) = create_buffer GL_UNIFORM_BUFFER sizeof_material
             (concat (map Material_cells material_initial)) g;
          (sphereSsbo, g) = create_buffer GL_SHADER_STORAGE_BUFFER sizeof_sphere
             (concat (map Sphere_cells sphere_initial)) g;
          (texture, g) = glGenTextures g;
          g = gl_run [BindTexture texture, TextureSetup width height, BindTexture 0] g;
          (framebuffer, g) = glGenFramebuffers g;
          g = gl_run [BindFramebuffer GL_FRAMEBUFFER framebuffer, FramebufferTexture2D texture,
                      BindFramebuffer GL_FRAMEBUFFER 0] g
      in (\<lparr>shader = env_shader env, lightCountLoc = env_lightCountLoc env,
            sphereCountLoc = env_sphereCountLoc env, imageLoc = env_imageLoc env,
            cameraUbo = cameraUbo, lightUbo = lightUbo, lightCount = int (length light_initial),
            materialUbo = materialUbo, materialCount = int (length material_initial),
            sphereSsbo = sphereSsbo, sphereCount = int (length sphere_initial),
            texture = texture, framebuffer = framebuffer\<rparr>,
          \<lparr>scene.position = pos, target = tgt, up = upv, fovy = fov, camera = cam,
            light = light_initial, targetLight = 0, material = material_initial,
            targetMaterial = 0, sphere = sphere_initial, showMenu = False\<rparr>,
          g))"

definition cleanup_calls :: "handles \<Rightarrow> gl_call list" where
  "cleanup_calls h =
     [DeleteFramebuffers (framebuffer h), DeleteTextures (texture h),
      DeleteBuffers (sphereSsbo h), DeleteBuffers (materialUbo h),
      DeleteBuffers (lightUbo h), DeleteBuffers (cameraUbo h), DeleteProgram (shader h)]"

text \<open>
  \<^verbatim>\<open>GgApp::main\<close>. \<open>Some (Inl e)\<close>: the exception \<open>e\<close> leaves \<^verbatim>\<open>main\<close>;
  \<open>Some (Inr (r, g))\<close>: \<^verbatim>\<open>main\<close> returns \<open>r\<close> and leaves the context in state \<open>g\<close>;
  \<open>None\<close>: the loop is still running when the observations are used up.
\<close>

definition main :: "startup_env \<Rightarrow> frame_obs list \<Rightarrow> (error + int \<times> gl_state) option" where
  "main env obs =
     (if \<not> env_window env then Some (Inl WindowCreationFailed)
      else if env_shader env = 0 then Some (Inl ShaderLoadFailed)
      else
        (let (h, sc, g) = init env
         in case main_loop h obs (sc, g) of
              None \<Rightarrow> None
            | Some (sc, g) \<Rightarrow> Some (Inr (0, gl_run (cleanup_calls h) g))))"

subsection \<open>The dispatcher protocol\<close>



definition all_unbound :: "gl_state \<Rightarrow> bool" where
  "all_unbound g \<longleftrightarrow>
     indexed_binding g GL_SHADER_STORAGE_BUFFER 0 = 0 \<and>
     indexed_binding g GL_UNIFORM_BUFFER 1 = 0 \<and>
     indexed_binding g GL_UNIFORM_BUFFER 2 = 0 \<and>
     indexed_binding g GL_UNIFORM_BUFFER 3 = 0 \<and>
     image_binding g 0 = 0"




text \<open>What the panel reports, by category.\<close>

definition camera_edited :: "ui_events \<Rightarrow> bool" where
  "camera_edited e \<longleftrightarrow>
     ev_position e \<noteq> None \<or> ev_target e \<noteq> None \<or> ev_up e \<noteq> None \<or> ev_fovy e \<noteq> None"

definition light_edited :: "ui_events \<Rightarrow> bool" where
  "light_edited e \<longleftrightarrow>
     ev_light_position e \<noteq> None \<or> ev_light_ambient e \<noteq> None \<or>
     ev_light_diffuse e \<noteq> None \<or> ev_light_specular e \<noteq> None"

definition material_edited :: "ui_events \<Rightarrow> bool" where
  "material_edited e \<longleftrightarrow>
     ev_material_ambient e \<noteq> None \<or> ev_material_diffuse e \<noteq> None \<or>
     ev_material_specular e \<noteq> None \<or> ev_material_shininess e \<noteq> None"

text \<open>Classes of calls: the dispatch of the kernel, the calls of a buffer upload, and
  the calls that write to a data store.\<close>

fun is_dispatch :: "gl_call \<Rightarrow> bool" where
  "is_dispatch (DispatchCompute x y z) = True"
| "is_dispatch c = False"

fun upload_call :: "gl_call \<Rightarrow> bool" where
  "upload_call (BindBuffer t b) = True"
| "upload_call (BufferSubData t offset sz data) = True"
| "upload_call c = False"

fun is_buffer_write :: "gl_call \<Rightarrow> bool" where
  "is_buffer_write (BufferData t sz data) = True"
| "is_buffer_write (BufferSubData t offset sz data) = True"
| "is_buffer_write c = False"

text \<open>The fourth component of the homogeneous position of each light.\<close>

definition light_w :: "Light list \<Rightarrow> GLfloat list" where
  "light_w ls = map (\<lambda>l. snd (snd (snd (Light.position l)))) ls"

text \<open>
  What holds at the head of the loop: the object names are those of distinct live objects,
  the arrays keep their two elements and the selected indices stay inside them, each
  uniform buffer has the size of its collection, nothing is bound to the binding points
  and the image unit, and both lights are point lights.
\<close>

definition main_inv :: "handles \<Rightarrow> scene \<times> gl_state \<Rightarrow> bool" where
  "main_inv h s \<longleftrightarrow>
     cameraUbo h \<noteq> 0 \<and> lightUbo h \<noteq> 0 \<and> materialUbo h \<noteq> 0 \<and> sphereSsbo h \<noteq> 0 \<and>
     texture h \<noteq> 0 \<and>
     cameraUbo h \<noteq> lightUbo h \<and> cameraUbo h \<noteq> materialUbo h \<and>
     lightUbo h \<noteq> materialUbo h \<and>
     lightCount h = 2 \<and> materialCount h = 2 \<and>
     length (light (fst s)) = 2 \<and> length (material (fst s)) = 2 \<and>
     0 \<le> targetLight (fst s) \<and> targetLight (fst s) < 2 \<and>
     0 \<le> targetMaterial (fst s) \<and> targetMaterial (fst s) < 2 \<and>
     map_option length (buffer_store (snd s) (cameraUbo h)) = Some 16 \<and>
     map_option length (buffer_store (snd s) (lightUbo h)) = Some 32 \<and>
     map_option length (buffer_store (snd s) (materialUbo h)) = Some 32 \<and>
     all_unbound (snd s) \<and>
     light_w (light (fst s)) = [1, 1]"

subsection \<open>Example inputs\<close>

text \<open>A startup at which the window and the shader are there, and two iterations with the
  tab key down: one in which the position control of the selected light reports a change,
  one in which the shininess control of the selected material does.\<close>

definition env_example :: startup_env where
  "env_example =
     \<lparr>env_window = True, env_shader = 1, env_lightCountLoc = 0, env_sphereCountLoc = 1,
      env_imageLoc = 2\<rparr>"

definition ob_light_edit :: frame_obs where
  "ob_light_edit =
     \<lparr>live = True, tab_key = True, ui = ui_none\<lparr>ev_light_position := Some (0, 5, 0)\<rparr>,
      window_width = 960, window_height = 540\<rparr>"

definition ob_material_edit :: frame_obs where
  "ob_material_edit =
     \<lparr>live = True, tab_key = True, ui = ui_none\<lparr>ev_material_shininess := Some 50\<rparr>,
      window_width = 960, window_height = 540\<rparr>"

section \<open>Properties\<close>

subsection \<open>Vector arithmetic\<close>

lemma length_vec_nonneg: "0 \<le> length_vec a"
  by (cases a) (simp add: length_vec_def)








lemma normalize_vec_near: "length_vec a < epsilon \<Longrightarrow> normalize_vec a = a"
  using length_vec_nonneg [of a] by (cases a) (simp add: Let_def)










subsection \<open>Camera rig\<close>

lemma forward_eq:
  "forward eye tgt =
     normalize_vec (fst tgt - fst eye, fst (snd tgt) - fst (snd eye),
       snd (snd tgt) - snd (snd eye))"
  by (cases eye; cases tgt) (simp del: normalize_vec.simps)

lemma setCamera_fields:
  "Camera.right (setCamera c p t u f) = normalize_vec (cross (forward p t) u)"
  "Camera.up (setCamera c p t u f) = cross (normalize_vec (cross (forward p t) u)) (forward p t)"
  "Camera.origin (setCamera c p t u f) =
     (fst p + fst (forward p t) * focal f,
      fst (snd p) + fst (snd (forward p t)) * focal f,
      snd (snd p) + snd (snd (forward p t)) * focal f)"
  "Camera.position (setCamera c p t u f) = p"
  by (simp_all add: setCamera_def Let_def)

lemma forward_example: "forward (0, 0, 2) (0, 0, 0) = (0, 0, -1)"
  by (simp add: length_vec_def epsilon_def)

text \<open>Bounds on the sine and cosine of the half angle of 60 degrees, from the Taylor
  polynomials of degree 9 and 8.\<close>

lemma sin_poly:
  fixes x :: real
  shows "(\<Sum>m<10. sin_coeff m * x ^ m) = x - x^3/6 + x^5/120 - x^7/5040 + x^9/362880"
  by (simp add: sin_coeff_def lessThan_nat_numeral fact_numeral)

lemma cos_poly:
  fixes x :: real
  shows "(\<Sum>m<10. cos_coeff m * x ^ m) = 1 - x^2/2 + x^4/24 - x^6/720 + x^8/40320"
  by (simp add: cos_coeff_def lessThan_nat_numeral fact_numeral)

lemma cos_taylor_bound:
  fixes x :: real
  shows "\<bar>cos x - (\<Sum>m<n. cos_coeff m * x ^ m)\<bar> \<le> inverse (fact n) * \<bar>x\<bar> ^ n"
proof -
  obtain t where t: "cos x = (\<Sum>m<n. cos_coeff m * x ^ m) + (cos (t + 1/2 * real n * pi) / fact n) * x ^ n"
    using Maclaurin_cos_expansion [of x n] by blast
  define c where "c = cos (t + 1/2 * real n * pi)"
  define r where "r = inverse (fact n) * \<bar>x\<bar> ^ n"
  have r0: "0 \<le> r" by (simp add: r_def)
  have c1: "\<bar>c\<bar> \<le> 1" by (simp add: c_def)
  have "cos x - (\<Sum>m<n. cos_coeff m * x ^ m) = (c / fact n) * x ^ n"
    using t by (simp add: c_def)
  then have "\<bar>cos x - (\<Sum>m<n. cos_coeff m * x ^ m)\<bar> = \<bar>c\<bar> * r"
    by (simp add: r_def abs_mult power_abs divide_inverse)
  also have "\<dots> \<le> 1 * r"
    using c1 r0 by (rule mult_right_mono)
  finally show ?thesis by (simp add: r_def)
qed

lemma sin_half_angle:
  "5000000062 / 10000000000 < sin (31415927 / 60000000 :: real)"
  "sin (31415927 / 60000000 :: real) < 5000000072 / 10000000000"
proof -
  define x :: real where "x = 31415927 / 60000000"
  have b: "\<bar>sin x - (x - x^3/6 + x^5/120 - x^7/5040 + x^9/362880)\<bar> \<le> inverse (fact 10) * \<bar>x\<bar> ^ 10"
    using Maclaurin_sin_bound [of x 10] by (simp only: sin_poly)
  have lo: "5000000062 / 10000000000
      < (x - x^3/6 + x^5/120 - x^7/5040 + x^9/362880) - inverse (fact 10) * \<bar>x\<bar> ^ 10"
    by (simp add: x_def fact_numeral power_divide)
  have hi: "(x - x^3/6 + x^5/120 - x^7/5040 + x^9/362880) + inverse (fact 10) * \<bar>x\<bar> ^ 10
      < 5000000072 / 10000000000"
    by (simp add: x_def fact_numeral power_divide)
  show "5000000062 / 10000000000 < sin (31415927 / 60000000 :: real)"
    using b lo unfolding x_def by linarith
  show "sin (31415927 / 60000000 :: real) < 5000000072 / 10000000000"
    using b hi unfolding x_def by linarith
qed

lemma cos_half_angle:
  "8660253999 / 10000000000 < cos (31415927 / 60000000 :: real)"
  "cos (31415927 / 60000000 :: real) < 8660254008 / 10000000000"
proof -
  define x :: real where "x = 31415927 / 60000000"
  have b: "\<bar>cos x - (1 - x^2/2 + x^4/24 - x^6/720 + x^8/40320)\<bar> \<le> inverse (fact 10) * \<bar>x\<bar> ^ 10"
    using cos_taylor_bound [of x 10] by (simp only: cos_poly)
  have lo: "8660253999 / 10000000000
      < (1 - x^2/2 + x^4/24 - x^6/720 + x^8/40320) - inverse (fact 10) * \<bar>x\<bar> ^ 10"
    by (simp add: x_def fact_numeral power_divide)
  have hi: "(1 - x^2/2 + x^4/24 - x^6/720 + x^8/40320) + inverse (fact 10) * \<bar>x\<bar> ^ 10
      < 8660254008 / 10000000000"
    by (simp add: x_def fact_numeral power_divide)
  show "8660253999 / 10000000000 < cos (31415927 / 60000000 :: real)"
    using b lo unfolding x_def by linarith
  show "cos (31415927 / 60000000 :: real) < 8660254008 / 10000000000"
    using b hi unfolding x_def by linarith
qed

lemma focal_60_bounds:
  "17320507 / 10000000 < focal 60" "focal 60 < 17320509 / 10000000"
proof -
  define x :: real where "x = 31415927 / 60000000"
  have f: "focal 60 = cos x / sin x"
    by (simp add: focal_def x_def tan_def)
  have sl: "5000000062 / 10000000000 < sin x" and su: "sin x < 5000000072 / 10000000000"
    using sin_half_angle by (simp_all add: x_def)
  have cl: "8660253999 / 10000000000 < cos x" and cu: "cos x < 8660254008 / 10000000000"
    using cos_half_angle by (simp_all add: x_def)
  have s: "0 < sin x" using sl by linarith
  have l: "17320507 / 10000000 * sin x < cos x" using su cl by linarith
  have u: "cos x < 17320509 / 10000000 * sin x" using sl cu by linarith
  show "17320507 / 10000000 < focal 60" using s l by (simp add: f pos_less_divide_eq)
  show "focal 60 < 17320509 / 10000000" using s u by (simp add: f pos_divide_less_eq)
qed

text \<open>
  C1. \<^verbatim>\<open>setCamera\<close> computes the camera frame by these steps: the view direction is the
  normalised difference of target and eye; \<open>right\<close> is the normalised cross product of the
  view direction and the up vector; \<open>up\<close> is the cross product of \<open>right\<close> and the view
  direction, not normalised again; the focal length is the reciprocal of the tangent of
  half the angle, converted from degrees with the factor \<open>3.1415927 / 180\<close>; \<open>origin\<close> is
  the eye moved by the focal length along the view direction; \<open>position\<close> is the eye. For
  the eye \<open>(0, 0, 2)\<close>, the target \<open>(0, 0, 0)\<close>, the up vector \<open>(0, 1, 0)\<close> and 60 degrees
  the view direction is \<open>(0, 0, -1)\<close>, \<open>right\<close> is \<open>(1, 0, 0)\<close>, \<open>up\<close> is \<open>(0, 1, 0)\<close>,
  the focal length is \<open>1.7320508\<close> and the origin \<open>(0, 0, 0.2679492)\<close>, both within
  \<open>10\<^sup>-\<^sup>7\<close>, and \<open>position\<close> is \<open>(0, 0, 2)\<close>.
\<close>

theorem setCamera_steps:
  "(let fwd = normalize_vec (fst tgt - fst eye, fst (snd tgt) - fst (snd eye),
                snd (snd tgt) - snd (snd eye));
        f = 1 / tan (fov / 2 * (3.1415927 / 180));
        cam = setCamera c eye tgt upv fov
    in forward eye tgt = fwd \<and>
       Camera.right cam = normalize_vec (cross fwd upv) \<and>
       Camera.up cam = cross (Camera.right cam) fwd \<and>
       focal fov = f \<and>
       Camera.origin cam =
         (fst eye + fst fwd * f, fst (snd eye) + fst (snd fwd) * f,
          snd (snd eye) + snd (snd fwd) * f) \<and>
       Camera.position cam = eye) \<and>
   (let cam = setCamera c (0, 0, 2) (0, 0, 0) (0, 1, 0) 60
    in forward (0, 0, 2) (0, 0, 0) = (0, 0, -1) \<and>
       Camera.right cam = (1, 0, 0) \<and>
       Camera.up cam = (0, 1, 0) \<and>
       \<bar>focal 60 - 1.7320508\<bar> < 1 / 10 ^ 7 \<and>
       fst (Camera.origin cam) = 0 \<and>
       fst (snd (Camera.origin cam)) = 0 \<and>
       \<bar>snd (snd (Camera.origin cam)) - 0.2679492\<bar> < 1 / 10 ^ 7 \<and>
       Camera.position cam = (0, 0, 2))"
proof -
  have focal_eq: "focal fov = 1 / tan (fov / 2 * (3.1415927 / 180))"
    by (simp add: focal_def)
  have general:
    "let fwd = normalize_vec (fst tgt - fst eye, fst (snd tgt) - fst (snd eye),
                snd (snd tgt) - snd (snd eye));
         f = 1 / tan (fov / 2 * (3.1415927 / 180));
         cam = setCamera c eye tgt upv fov
     in forward eye tgt = fwd \<and>
       Camera.right cam = normalize_vec (cross fwd upv) \<and>
       Camera.up cam = cross (Camera.right cam) fwd \<and>
       focal fov = f \<and>
       Camera.origin cam =
         (fst eye + fst fwd * f, fst (snd eye) + fst (snd fwd) * f,
          snd (snd eye) + snd (snd fwd) * f) \<and>
       Camera.position cam = eye"
    unfolding Let_def setCamera_fields forward_eq focal_eq
    by (intro conjI refl)
  have r: "normalize_vec (cross (0, 0, -1) (0, 1, 0)) = (1, 0, 0)"
    by (simp add: length_vec_def epsilon_def)
  have ex_right: "Camera.right (setCamera c (0, 0, 2) (0, 0, 0) (0, 1, 0) 60) = (1, 0, 0)"
    unfolding setCamera_fields forward_example r ..
  have ex_up: "Camera.up (setCamera c (0, 0, 2) (0, 0, 0) (0, 1, 0) 60) = (0, 1, 0)"
    unfolding setCamera_fields forward_example r by simp
  have ex_origin: "Camera.origin (setCamera c (0, 0, 2) (0, 0, 0) (0, 1, 0) 60)
      = (0, 0, 2 - focal 60)"
    unfolding setCamera_fields forward_example by simp
  have f1: "\<bar>focal 60 - 1.7320508\<bar> < 1 / 10 ^ 7"
  proof -
    have "focal 60 - 1.7320508 < 1 / 10 ^ 7"
      using focal_60_bounds(2) by simp
    moreover have "- (focal 60 - 1.7320508) < 1 / 10 ^ 7"
      using focal_60_bounds(1) by simp
    ultimately show ?thesis by (simp only: abs_less_iff)
  qed
  have f2: "\<bar>2 - focal 60 - 0.2679492\<bar> < 1 / 10 ^ 7"
  proof -
    have "2 - focal 60 - 0.2679492 < 1 / 10 ^ 7"
      using focal_60_bounds(1) by simp
    moreover have "- (2 - focal 60 - 0.2679492) < 1 / 10 ^ 7"
      using focal_60_bounds(2) by simp
    ultimately show ?thesis by (simp only: abs_less_iff)
  qed
  have example:
    "let cam = setCamera c (0, 0, 2) (0, 0, 0) (0, 1, 0) 60
     in forward (0, 0, 2) (0, 0, 0) = (0, 0, -1) \<and>
       Camera.right cam = (1, 0, 0) \<and>
       Camera.up cam = (0, 1, 0) \<and>
       \<bar>focal 60 - 1.7320508\<bar> < 1 / 10 ^ 7 \<and>
       fst (Camera.origin cam) = 0 \<and>
       fst (snd (Camera.origin cam)) = 0 \<and>
       \<bar>snd (snd (Camera.origin cam)) - 0.2679492\<bar> < 1 / 10 ^ 7 \<and>
       Camera.position cam = (0, 0, 2)"
    unfolding Let_def ex_right ex_up ex_origin setCamera_fields(4) forward_example
      fst_conv snd_conv
    using f1 f2 by (intro conjI refl)
  show ?thesis
    using general example by (rule conjI)
qed




text \<open>
  The bound on the distance from the eye to the target is needed as well: with the target
  \<open>2\<^sup>-\<^sup>2\<^sup>4\<close> in front of the eye the view direction is passed through with that length,
  and with the up vector \<open>(0, 2\<^sup>2\<^sup>4, 0)\<close> the cross product has length one, \<open>right\<close> is
  \<open>(1, 0, 0)\<close>, and \<open>up\<close> has length \<open>2\<^sup>-\<^sup>2\<^sup>4\<close>.
\<close>

lemma setCamera_near_target_example:
  "length_vec (cross (forward (0, 0, 0) (0, 0, - (1 / 2 ^ 24))) (0, 2 ^ 24, 0)) = 1 \<and>
   Camera.right (setCamera Camera_uninitialized
      (0, 0, 0) (0, 0, - (1 / 2 ^ 24)) (0, 2 ^ 24, 0) 60) = (1, 0, 0) \<and>
   Camera.up (setCamera Camera_uninitialized
      (0, 0, 0) (0, 0, - (1 / 2 ^ 24)) (0, 2 ^ 24, 0) 60) = (0, 1 / 2 ^ 24, 0)"
proof -
  have s: "sqrt (1 / (2 ^ 24 * 2 ^ 24)) = 1 / 2 ^ 24"
    by (rule real_sqrt_unique) (simp_all add: power2_eq_square)
  have l: "length_vec (0, 0, - (1 / 2 ^ 24)) = 1 / 2 ^ 24"
    unfolding length_vec_def using s by simp
  have n0: "normalize_vec (0, 0, - (1 / 2 ^ 24)) = (0, 0, - (1 / 2 ^ 24))"
    by (rule normalize_vec_near) (unfold l, simp add: epsilon_def)
  have d: "((0 - 0, 0 - 0, - (1 / 2 ^ 24) - 0) :: vec3) = (0, 0, - (1 / 2 ^ 24))"
    by simp
  have f: "forward (0, 0, 0) (0, 0, - (1 / 2 ^ 24)) = (0, 0, - (1 / 2 ^ 24))"
    unfolding forward.simps d by (rule n0)
  have c: "cross (0, 0, - (1 / 2 ^ 24)) (0, 2 ^ 24, 0) = (1, 0, 0)"
    by simp
  have n: "normalize_vec (1, 0, 0) = (1, 0, 0)"
    by (simp add: length_vec_def epsilon_def)
  show ?thesis
    unfolding setCamera_fields f c n by (simp add: length_vec_def)
qed


subsection \<open>Memory layout\<close>

text \<open>
  C2. In each of the four device-mirrored records every member of several components lies
  at an offset that 16 divides and every scalar member at an offset that 4 divides. A
  \<^verbatim>\<open>Sphere\<close> is laid out as the three floats of \<open>center\<close> at offset 0, the 4-byte \<open>radius\<close>
  at offset 12 and the 4-byte \<open>materialIndex\<close> at offset 16. The layout and the size of each
  record are those of the kernel's block with the same members.
\<close>

theorem record_layouts:
  "layout 0 Camera_members =
     [(''origin'', 0, 12), (''right'', 16, 12), (''up'', 32, 12), (''position'', 48, 12)] \<and>
   layout 0 Light_members =
     [(''ambient'', 0, 16), (''diffuse'', 16, 16), (''specular'', 32, 16), (''position'', 48, 16)] \<and>
   layout 0 Material_members =
     [(''ambient'', 0, 16), (''diffuse'', 16, 16), (''specular'', 32, 16), (''shininess'', 48, 4)] \<and>
   layout 0 Sphere_members =
     [(''center'', 0, 12), (''radius'', 12, 4), (''materialIndex'', 16, 4)] \<and>
   map (\<lambda>ms. map (\<lambda>off. off mod 16) (vector_offsets ms))
     [Camera_members, Light_members, Material_members, Sphere_members] =
     [[0, 0, 0, 0], [0, 0, 0, 0], [0, 0, 0], [0]] \<and>
   map (\<lambda>ms. map (\<lambda>off. off mod 4) (scalar_offsets ms))
     [Camera_members, Light_members, Material_members, Sphere_members] =
     [[], [], [0], [0, 0]] \<and>
   map (\<lambda>ms. block_layout 0 (kernel_block ms))
     [Camera_members, Light_members, Material_members, Sphere_members] =
   map (layout 0) [Camera_members, Light_members, Material_members, Sphere_members] \<and>
   map (\<lambda>ms. block_stride (kernel_block ms))
     [Camera_members, Light_members, Material_members, Sphere_members] =
   map sizeof_struct [Camera_members, Light_members, Material_members, Sphere_members] \<and>
   map sizeof_struct [Camera_members, Light_members, Material_members, Sphere_members] =
     [64, 64, 64, 32]"
  by (simp add: Camera_members_def Light_members_def Material_members_def Sphere_members_def
      member_align_def align_up_def vector_offsets_def scalar_offsets_def kernel_block_def
      block_stride_def sizeof_struct_def struct_align_def)


subsection \<open>Calls, uploads and the protocol\<close>

lemma sizes:
  "sizeof_camera = 64" "sizeof_light = 128" "sizeof_material = 128" "sizeof_sphere = 64"
  by (simp_all add: sizeof_camera_def sizeof_light_def sizeof_material_def sizeof_sphere_def
      sizeof_struct_def struct_align_def member_align_def align_up_def
      Camera_members_def Light_members_def Material_members_def Sphere_members_def)

lemma length_vec3_cells: "length (vec3_cells v) = 3"
  by (cases v) auto

lemma length_vec4_cells: "length (vec4_cells v) = 4"
  by (cases v) auto

lemma length_Camera_cells: "length (Camera_cells c) = 16"
  by (simp add: Camera_cells_def length_vec3_cells)

lemma length_Light_cells: "length (concat (map Light_cells ls)) = 16 * length ls"
  by (induction ls) (simp_all add: Light_cells_def length_vec4_cells)

lemma length_Material_cells: "length (concat (map Material_cells ms)) = 16 * length ms"
  by (induction ms) (simp_all add: Material_cells_def length_vec4_cells)

lemma length_Sphere_cells: "length (concat (map Sphere_cells ss)) = 8 * length ss"
  by (induction ss) (simp_all add: Sphere_cells_def length_vec3_cells)

lemma gl_run_Nil: "gl_run [] g = g"
  by (simp add: gl_run_def)

lemma gl_run_Cons: "gl_run (c # cs) g = gl_run cs (issue c g)"
  by (simp add: gl_run_def)

lemma gl_run_append: "gl_run (a @ b) g = gl_run b (gl_run a g)"
  by (simp add: gl_run_def)

lemma upload_call_bindings:
  "upload_call c \<Longrightarrow>
   indexed_binding (issue c g) = indexed_binding g \<and> image_binding (issue c g) = image_binding g"
  by (cases c) (auto simp: issue_def split: option.splits)

lemma uploads_bindings:
  "list_all upload_call cs \<Longrightarrow>
   indexed_binding (gl_run cs g) = indexed_binding g \<and> image_binding (gl_run cs g) = image_binding g"
  by (induction cs arbitrary: g) (simp_all add: gl_run_Nil gl_run_Cons upload_call_bindings)

lemma uploads_all_unbound:
  "list_all upload_call cs \<Longrightarrow> all_unbound (gl_run cs g) = all_unbound g"
  by (simp add: all_unbound_def uploads_bindings)




lemma upload_not_dispatch: "upload_call c \<Longrightarrow> \<not> is_dispatch c"
  by (cases c) auto




lemma fixed_part_state:
  "buffer_store (gl_run (dispatch_calls h @ blit_calls h ob @ [SwapBuffers]) g) = buffer_store g"
  "all_unbound (gl_run (dispatch_calls h @ blit_calls h ob @ [SwapBuffers]) g)"
  by (simp_all add: dispatch_calls_def blit_calls_def issue_def all_unbound_def
      ImageUnit_def gl_run_Cons gl_run_Nil)


lemma widget_changed:
  "snd (DragFloat3 ev v) = (ev \<noteq> None)"
  "snd (DragFloat3_vec4 ev v4) = (ev \<noteq> None)"
  "snd (ColorEdit3 ev v4) = (ev \<noteq> None)"
  "snd (DragFloat evf lo hi x) = (evf \<noteq> None)"
  by (simp_all add: DragFloat3_def DragFloat3_vec4_def ColorEdit3_def DragFloat_def
      split: option.splits)

lemma write3_w: "snd (snd (snd (write3 v' v))) = snd (snd (snd v))"
  by (cases v'; cases v) simp

lemma DragFloat3_vec4_w: "snd (snd (snd (fst (DragFloat3_vec4 ev v)))) = snd (snd (snd v))"
  by (simp add: DragFloat3_vec4_def write3_w split: option.splits)

lemma DragInt_range:
  "lo \<le> hi \<Longrightarrow> lo \<le> v \<Longrightarrow> v \<le> hi \<Longrightarrow>
   lo \<le> fst (DragInt ev lo hi v) \<and> fst (DragInt ev lo hi v) \<le> hi"
  by (simp add: DragInt_def split: option.splits)

lemma upload_effect:
  assumes "b \<noteq> 0" "map_option length (buffer_store g b) = Some n" "length data = n"
    "sz = 4 * n"
  shows "buffer_store (gl_run [BindBuffer t b, BufferSubData t 0 sz data, BindBuffer t 0] g)
     = (buffer_store g)(b \<mapsto> data)"
proof -
  obtain old where old: "buffer_store g b = Some old" "length old = n"
    using assms(2) by (cases "buffer_store g b") auto
  show ?thesis
    using assms(1,3,4) old by (simp add: gl_run_Cons gl_run_Nil issue_def)
qed

lemma upload_unbound:
  "all_unbound (gl_run [BindBuffer t b, BufferSubData t off sz data, BindBuffer t 0] g)
     = all_unbound g"
  by (rule uploads_all_unbound) simp

lemma camera_section_calls:
  "snd (camera_section h e sc) =
     (if camera_edited e then
        [BindBuffer GL_UNIFORM_BUFFER (cameraUbo h),
         BufferSubData GL_UNIFORM_BUFFER 0 sizeof_camera
           (Camera_cells (camera (fst (camera_section h e sc)))),
         BindBuffer GL_UNIFORM_BUFFER 0]
      else [])"
  by (simp add: camera_section_def Let_def split_def widget_changed camera_edited_def)

lemma camera_section_scene:
  "light (fst (camera_section h e sc)) = light sc"
  "material (fst (camera_section h e sc)) = material sc"
  "targetLight (fst (camera_section h e sc)) = targetLight sc"
  "targetMaterial (fst (camera_section h e sc)) = targetMaterial sc"
  by (simp_all add: camera_section_def Let_def split_def)

lemma light_section_calls:
  "snd (light_section h e sc) =
     (if light_edited e then
        [BindBuffer GL_UNIFORM_BUFFER (lightUbo h),
         BufferSubData GL_UNIFORM_BUFFER 0 sizeof_light
           (concat (map Light_cells (light (fst (light_section h e sc))))),
         BindBuffer GL_UNIFORM_BUFFER 0]
      else [])"
  by (simp add: light_section_def Let_def split_def widget_changed light_edited_def)

lemma light_section_scene:
  "camera (fst (light_section h e sc)) = camera sc"
  "material (fst (light_section h e sc)) = material sc"
  "targetMaterial (fst (light_section h e sc)) = targetMaterial sc"
  "length (light (fst (light_section h e sc))) = length (light sc)"
  "targetLight (fst (light_section h e sc)) = fst (DragInt (ev_targetLight e) 0 (lightCount h - 1) (targetLight sc))"
  by (simp_all add: light_section_def Let_def split_def)

lemma light_w_update:
  assumes "snd (snd (snd (Light.position l'))) = snd (snd (snd (Light.position (ls ! i))))"
  shows "light_w (ls[i := l']) = light_w ls"
proof (cases "i < length ls")
  case True
  have "light_w (ls[i := l']) = (light_w ls)[i := light_w ls ! i]"
    using True assms by (simp add: light_w_def map_update)
  then show ?thesis by simp
next
  case False
  then show ?thesis by (simp add: list_update_beyond)
qed

lemma light_section_w: "light_w (light (fst (light_section h e sc))) = light_w (light sc)"
  by (simp add: light_section_def Let_def split_def light_w_update DragFloat3_vec4_w)

lemma material_section_calls:
  "snd (material_section h e sc) =
     (if material_edited e then
        [BindBuffer GL_UNIFORM_BUFFER (materialUbo h),
         BufferSubData GL_UNIFORM_BUFFER 0 sizeof_material
           (concat (map Material_cells (material (fst (material_section h e sc))))),
         BindBuffer GL_UNIFORM_BUFFER 0]
      else [])"
  by (simp add: material_section_def Let_def split_def widget_changed material_edited_def)

lemma material_section_scene:
  "camera (fst (material_section h e sc)) = camera sc"
  "light (fst (material_section h e sc)) = light sc"
  "targetLight (fst (material_section h e sc)) = targetLight sc"
  "length (material (fst (material_section h e sc))) = length (material sc)"
  "targetMaterial (fst (material_section h e sc)) = fst (DragInt (ev_targetMaterial e) 0 (materialCount h - 1) (targetMaterial sc))"
  by (simp_all add: material_section_def Let_def split_def)


lemma menu_eq:
  "menu h e sc =
     (let r1 = camera_section h e (sc\<lparr>showMenu := ev_open e\<rparr>);
          r2 = light_section h e (fst r1);
          r3 = material_section h e (fst r2)
      in (fst r3, snd r1 @ snd r2 @ snd r3))"
  by (simp add: menu_def Let_def split_def)

lemma menu_calls_upload: "list_all upload_call (snd (menu h e sc))"
  by (simp add: menu_eq Let_def camera_section_calls light_section_calls material_section_calls)

lemma frame_eq:
  "frame h ob sc =
     (let r = (if showMenu sc \<or> tab_key ob then menu h (ui ob) (sc\<lparr>showMenu := True\<rparr>)
               else (sc\<lparr>showMenu := False\<rparr>, []))
      in (fst r, snd r @ dispatch_calls h @ blit_calls h ob @ [SwapBuffers]))"
  by (simp add: frame_def Let_def split_def)

lemma frame_calls:
  "\<exists>mc. list_all upload_call mc \<and>
     snd (frame h ob sc) = mc @ dispatch_calls h @ blit_calls h ob @ [SwapBuffers]"
  using menu_calls_upload [of h "ui ob" "sc\<lparr>showMenu := True\<rparr>"]
  by (simp add: frame_eq Let_def)

lemma filter_uploads: "list_all upload_call cs \<Longrightarrow> filter is_dispatch cs = []"
  by (induction cs) (simp_all add: upload_not_dispatch)

text \<open>
  C4. Every iteration of the loop issues exactly one dispatch, with the grid
  \<open>width \<times> height \<times> 1\<close>, which is \<open>960 \<times> 540 \<times> 1\<close>.
\<close>

theorem frame_dispatch_grid:
  "filter is_dispatch (snd (frame h ob sc)) = [DispatchCompute (nat width) (nat height) 1] \<and>
   nat width = 960 \<and> nat height = 540"
proof -
  obtain mc where mc: "list_all upload_call mc"
    "snd (frame h ob sc) = mc @ dispatch_calls h @ blit_calls h ob @ [SwapBuffers]"
    using frame_calls by blast
  have "filter is_dispatch (dispatch_calls h @ blit_calls h ob @ [SwapBuffers])
      = [DispatchCompute (nat width) (nat height) 1]"
    by (simp add: dispatch_calls_def blit_calls_def)
  then show ?thesis
    by (simp add: mc filter_uploads width_def height_def)
qed

lemma camera_section_store:
  assumes "main_inv h (sc, g)"
  shows "buffer_store (gl_run (snd (camera_section h e sc)) g) =
     (if camera_edited e
      then (buffer_store g)(cameraUbo h \<mapsto> Camera_cells (camera (fst (camera_section h e sc))))
      else buffer_store g)"
proof (cases "camera_edited e")
  case True
  have "cameraUbo h \<noteq> 0" "map_option length (buffer_store g (cameraUbo h)) = Some 16"
    using assms by (simp_all add: main_inv_def)
  then show ?thesis
    using True by (simp add: camera_section_calls upload_effect length_Camera_cells sizes)
next
  case False
  then show ?thesis by (simp add: camera_section_calls gl_run_Nil)
qed

lemma light_section_store:
  assumes "main_inv h (sc, g)"
  shows "buffer_store (gl_run (snd (light_section h e sc)) g) =
     (if light_edited e
      then (buffer_store g)(lightUbo h \<mapsto>
             concat (map Light_cells (light (fst (light_section h e sc)))))
      else buffer_store g)"
proof (cases "light_edited e")
  case True
  have "lightUbo h \<noteq> 0" "map_option length (buffer_store g (lightUbo h)) = Some 32"
    "length (light sc) = 2"
    using assms by (simp_all add: main_inv_def)
  then show ?thesis
    using True
    by (simp add: light_section_calls upload_effect length_Light_cells sizes light_section_scene)
next
  case False
  then show ?thesis by (simp add: light_section_calls gl_run_Nil)
qed

lemma material_section_store:
  assumes "main_inv h (sc, g)"
  shows "buffer_store (gl_run (snd (material_section h e sc)) g) =
     (if material_edited e
      then (buffer_store g)(materialUbo h \<mapsto>
             concat (map Material_cells (material (fst (material_section h e sc)))))
      else buffer_store g)"
proof (cases "material_edited e")
  case True
  have "materialUbo h \<noteq> 0" "map_option length (buffer_store g (materialUbo h)) = Some 32"
    "length (material sc) = 2"
    using assms by (simp_all add: main_inv_def)
  then show ?thesis
    using True
    by (simp add: material_section_calls upload_effect length_Material_cells sizes
        material_section_scene)
next
  case False
  then show ?thesis by (simp add: material_section_calls gl_run_Nil)
qed

lemma section_calls_upload:
  "list_all upload_call (snd (camera_section h e sc))"
  "list_all upload_call (snd (light_section h e sc))"
  "list_all upload_call (snd (material_section h e sc))"
  by (simp_all add: camera_section_calls light_section_calls material_section_calls)

lemma camera_section_inv:
  assumes "main_inv h (sc, g)"
  shows "main_inv h (fst (camera_section h e sc), gl_run (snd (camera_section h e sc)) g)"
  using assms
  by (simp add: main_inv_def camera_section_store [OF assms] camera_section_scene
      uploads_all_unbound section_calls_upload length_Camera_cells)

lemma light_section_inv:
  assumes "main_inv h (sc, g)"
  shows "main_inv h (fst (light_section h e sc), gl_run (snd (light_section h e sc)) g)"
proof -
  have "lightCount h - 1 = 1" "0 \<le> targetLight sc" "targetLight sc \<le> 1"
    using assms by (simp_all add: main_inv_def)
  then have "0 \<le> fst (DragInt (ev_targetLight e) 0 (lightCount h - 1) (targetLight sc)) \<and>
      fst (DragInt (ev_targetLight e) 0 (lightCount h - 1) (targetLight sc)) \<le> 1"
    using DragInt_range [of 0 1 "targetLight sc" "ev_targetLight e"] by simp
  then show ?thesis
    using assms
    by (simp add: main_inv_def light_section_store [OF assms] light_section_scene
        uploads_all_unbound section_calls_upload length_Light_cells light_section_w)
qed

lemma material_section_inv:
  assumes "main_inv h (sc, g)"
  shows "main_inv h (fst (material_section h e sc), gl_run (snd (material_section h e sc)) g)"
proof -
  have "materialCount h - 1 = 1" "0 \<le> targetMaterial sc" "targetMaterial sc \<le> 1"
    using assms by (simp_all add: main_inv_def)
  then have "0 \<le> fst (DragInt (ev_targetMaterial e) 0 (materialCount h - 1) (targetMaterial sc)) \<and>
      fst (DragInt (ev_targetMaterial e) 0 (materialCount h - 1) (targetMaterial sc)) \<le> 1"
    using DragInt_range [of 0 1 "targetMaterial sc" "ev_targetMaterial e"] by simp
  then show ?thesis
    using assms
    by (simp add: main_inv_def material_section_store [OF assms] material_section_scene
        uploads_all_unbound section_calls_upload length_Material_cells)
qed

subsection \<open>The loop invariant\<close>

lemma main_inv_showMenu: "main_inv h (sc\<lparr>showMenu := b\<rparr>, g) = main_inv h (sc, g)"
  by (simp add: main_inv_def)

lemma menu_inv:
  assumes "main_inv h (sc, g)"
  shows "main_inv h (fst (menu h e sc), gl_run (snd (menu h e sc)) g)"
proof -
  define r1 where "r1 = camera_section h e (sc\<lparr>showMenu := ev_open e\<rparr>)"
  define r2 where "r2 = light_section h e (fst r1)"
  define r3 where "r3 = material_section h e (fst r2)"
  have m: "menu h e sc = (fst r3, snd r1 @ snd r2 @ snd r3)"
    by (simp add: menu_eq Let_def r1_def r2_def r3_def)
  have i0: "main_inv h (sc\<lparr>showMenu := ev_open e\<rparr>, g)"
    using assms by (simp add: main_inv_showMenu)
  have i1: "main_inv h (fst r1, gl_run (snd r1) g)"
    unfolding r1_def by (rule camera_section_inv [OF i0])
  have i2: "main_inv h (fst r2, gl_run (snd r2) (gl_run (snd r1) g))"
    unfolding r2_def by (rule light_section_inv [OF i1])
  have i3: "main_inv h (fst r3, gl_run (snd r3) (gl_run (snd r2) (gl_run (snd r1) g)))"
    unfolding r3_def by (rule material_section_inv [OF i2])
  show ?thesis
    using i3 by (simp add: m gl_run_append)
qed

lemma menu_store:
  assumes "main_inv h (sc, g)"
  shows "buffer_store (gl_run (snd (menu h e sc)) g) (cameraUbo h) =
      (if camera_edited e then Some (Camera_cells (camera (fst (menu h e sc))))
       else buffer_store g (cameraUbo h))"
    and "buffer_store (gl_run (snd (menu h e sc)) g) (lightUbo h) =
      (if light_edited e then Some (concat (map Light_cells (light (fst (menu h e sc)))))
       else buffer_store g (lightUbo h))"
    and "buffer_store (gl_run (snd (menu h e sc)) g) (materialUbo h) =
      (if material_edited e
       then Some (concat (map Material_cells (material (fst (menu h e sc)))))
       else buffer_store g (materialUbo h))"
proof -
  define r1 where "r1 = camera_section h e (sc\<lparr>showMenu := ev_open e\<rparr>)"
  define r2 where "r2 = light_section h e (fst r1)"
  define r3 where "r3 = material_section h e (fst r2)"
  define g1 where "g1 = gl_run (snd r1) g"
  define g2 where "g2 = gl_run (snd r2) g1"
  define g3 where "g3 = gl_run (snd r3) g2"
  have m: "menu h e sc = (fst r3, snd r1 @ snd r2 @ snd r3)"
    by (simp add: menu_eq Let_def r1_def r2_def r3_def)
  have g: "gl_run (snd (menu h e sc)) g = g3"
    by (simp add: m gl_run_append g1_def g2_def g3_def)
  have i0: "main_inv h (sc\<lparr>showMenu := ev_open e\<rparr>, g)"
    using assms by (simp add: main_inv_showMenu)
  have i1: "main_inv h (fst r1, g1)"
    unfolding r1_def g1_def by (rule camera_section_inv [OF i0])
  have i2: "main_inv h (fst r2, g2)"
    unfolding r2_def g2_def by (rule light_section_inv [OF i1])
  have d: "cameraUbo h \<noteq> lightUbo h" "cameraUbo h \<noteq> materialUbo h"
    "lightUbo h \<noteq> materialUbo h"
    using assms by (simp_all add: main_inv_def)
  have s1: "buffer_store g1 =
     (if camera_edited e then (buffer_store g)(cameraUbo h \<mapsto> Camera_cells (camera (fst r1)))
      else buffer_store g)"
    unfolding r1_def g1_def by (rule camera_section_store [OF i0])
  have s2: "buffer_store g2 =
     (if light_edited e
      then (buffer_store g1)(lightUbo h \<mapsto> concat (map Light_cells (light (fst r2))))
      else buffer_store g1)"
    unfolding r2_def g2_def by (rule light_section_store [OF i1])
  have s3: "buffer_store g3 =
     (if material_edited e
      then (buffer_store g2)(materialUbo h \<mapsto>
             concat (map Material_cells (material (fst r3))))
      else buffer_store g2)"
    unfolding r3_def g3_def by (rule material_section_store [OF i2])
  have c: "camera (fst r3) = camera (fst r1)" "light (fst r3) = light (fst r2)"
    by (simp_all add: r3_def r2_def material_section_scene light_section_scene)
  show "buffer_store (gl_run (snd (menu h e sc)) g) (cameraUbo h) =
      (if camera_edited e then Some (Camera_cells (camera (fst (menu h e sc))))
       else buffer_store g (cameraUbo h))"
    unfolding g using d by (simp add: s3 s2 s1 m c)
  show "buffer_store (gl_run (snd (menu h e sc)) g) (lightUbo h) =
      (if light_edited e then Some (concat (map Light_cells (light (fst (menu h e sc)))))
       else buffer_store g (lightUbo h))"
    unfolding g using d by (simp add: s3 s2 s1 m c)
  show "buffer_store (gl_run (snd (menu h e sc)) g) (materialUbo h) =
      (if material_edited e
       then Some (concat (map Material_cells (material (fst (menu h e sc)))))
       else buffer_store g (materialUbo h))"
    unfolding g using d by (simp add: s3 s2 s1 m c)
qed

lemma fixed_part_inv:
  "main_inv h (sc, g) \<Longrightarrow>
   main_inv h (sc, gl_run (dispatch_calls h @ blit_calls h ob @ [SwapBuffers]) g)"
  by (simp add: main_inv_def fixed_part_state)

lemma frame_step_shown:
  assumes "showMenu sc \<or> tab_key ob"
  shows "frame_step h ob (sc, g) =
     (fst (menu h (ui ob) (sc\<lparr>showMenu := True\<rparr>)),
      gl_run (dispatch_calls h @ blit_calls h ob @ [SwapBuffers])
        (gl_run (snd (menu h (ui ob) (sc\<lparr>showMenu := True\<rparr>))) g))"
  using assms by (simp add: frame_step_def frame_eq Let_def gl_run_append)

lemma frame_step_hidden:
  assumes "\<not> (showMenu sc \<or> tab_key ob)"
  shows "frame_step h ob (sc, g) =
     (sc\<lparr>showMenu := False\<rparr>,
      gl_run (dispatch_calls h @ blit_calls h ob @ [SwapBuffers]) g)"
  using assms by (simp add: frame_step_def frame_eq Let_def gl_run_Nil)

lemma frame_step_inv:
  assumes "main_inv h s"
  shows "main_inv h (frame_step h ob s)"
proof -
  obtain sc g where s: "s = (sc, g)" by (cases s)
  show ?thesis
  proof (cases "showMenu sc \<or> tab_key ob")
    case True
    have "main_inv h (sc\<lparr>showMenu := True\<rparr>, g)"
      using assms by (simp add: s main_inv_showMenu)
    then show ?thesis
      unfolding s frame_step_shown [OF True]
      by (intro fixed_part_inv menu_inv)
  next
    case False
    have "main_inv h (sc\<lparr>showMenu := False\<rparr>, g)"
      using assms by (simp add: s main_inv_showMenu)
    then show ?thesis
      unfolding s frame_step_hidden [OF False]
      by (rule fixed_part_inv)
  qed
qed

lemma after_frames_inv: "main_inv h s \<Longrightarrow> main_inv h (after_frames h obs s)"
  unfolding after_frames_def
  by (induction obs arbitrary: s) (simp_all add: frame_step_inv)

lemma init_handles:
  "fst (init env) =
     \<lparr>shader = env_shader env, lightCountLoc = env_lightCountLoc env,
      sphereCountLoc = env_sphereCountLoc env, imageLoc = env_imageLoc env,
      cameraUbo = 1, lightUbo = 2, lightCount = 2, materialUbo = 3, materialCount = 2,
      sphereSsbo = 4, sphereCount = 2, texture = 1, framebuffer = 1\<rparr>"
  by (simp add: init_def Let_def split_def create_buffer_def glGenBuffers_def
      glGenTextures_def glGenFramebuffers_def gl_run_Cons gl_run_Nil issue_def gl_initial_def
      light_initial_def material_initial_def sphere_initial_def)

lemma init_scene:
  "light (fst (snd (init env))) = light_initial"
  "material (fst (snd (init env))) = material_initial"
  "targetLight (fst (snd (init env))) = 0"
  "targetMaterial (fst (snd (init env))) = 0"
  by (simp_all add: init_def Let_def split_def)

lemma length_record_cells:
  "length (Light_cells l) = 16" "length (Material_cells m) = 16" "length (Sphere_cells sp) = 8"
  by (simp_all add: Light_cells_def Material_cells_def Sphere_cells_def length_vec3_cells
      length_vec4_cells)

lemma init_names:
  "cameraUbo (fst (init env)) \<noteq> 0" "lightUbo (fst (init env)) \<noteq> 0"
  "materialUbo (fst (init env)) \<noteq> 0" "sphereSsbo (fst (init env)) \<noteq> 0"
  "texture (fst (init env)) \<noteq> 0"
  "cameraUbo (fst (init env)) \<noteq> lightUbo (fst (init env))"
  "cameraUbo (fst (init env)) \<noteq> materialUbo (fst (init env))"
  "lightUbo (fst (init env)) \<noteq> materialUbo (fst (init env))"
  "lightCount (fst (init env)) = 2" "materialCount (fst (init env)) = 2"
  by (simp_all add: init_handles)

lemma init_gl:
  "map_option length (buffer_store (snd (snd (init env))) (cameraUbo (fst (init env)))) = Some 16"
  "map_option length (buffer_store (snd (snd (init env))) (lightUbo (fst (init env)))) = Some 32"
  "map_option length (buffer_store (snd (snd (init env))) (materialUbo (fst (init env)))) = Some 32"
  "all_unbound (snd (snd (init env)))"
  unfolding init_handles
  by (simp_all add: init_def Let_def split_def create_buffer_def glGenBuffers_def
      glGenTextures_def glGenFramebuffers_def gl_run_Cons gl_run_Nil issue_def gl_initial_def
      sizes length_Camera_cells length_record_cells
      light_initial_def material_initial_def all_unbound_def)

lemma init_inv: "main_inv (fst (init env)) (snd (init env))"
  by (simp add: main_inv_def init_names init_scene init_gl light_initial_def
      material_initial_def light_w_def)


lemma main_loop_eq:
  "main_loop h obs s =
     (if list_all live obs then None else Some (after_frames h (takeWhile live obs) s))"
  by (induction obs arbitrary: s) (simp_all add: after_frames_def)

lemma reachable_inv:
  "main_inv (fst (init env)) (after_frames (fst (init env)) pre (snd (init env)))"
  by (intro after_frames_inv init_inv)

lemma frame_step_store:
  assumes "main_inv h (sc, g)" "showMenu sc \<or> tab_key ob"
  shows "buffer_store (snd (frame_step h ob (sc, g))) (cameraUbo h) =
      (if camera_edited (ui ob)
       then Some (Camera_cells (camera (fst (frame_step h ob (sc, g)))))
       else buffer_store g (cameraUbo h))"
    and "buffer_store (snd (frame_step h ob (sc, g))) (lightUbo h) =
      (if light_edited (ui ob)
       then Some (concat (map Light_cells (light (fst (frame_step h ob (sc, g))))))
       else buffer_store g (lightUbo h))"
    and "buffer_store (snd (frame_step h ob (sc, g))) (materialUbo h) =
      (if material_edited (ui ob)
       then Some (concat (map Material_cells (material (fst (frame_step h ob (sc, g))))))
       else buffer_store g (materialUbo h))"
proof -
  have i: "main_inv h (sc\<lparr>showMenu := True\<rparr>, g)"
    using assms(1) by (simp add: main_inv_showMenu)
  show "buffer_store (snd (frame_step h ob (sc, g))) (cameraUbo h) =
      (if camera_edited (ui ob)
       then Some (Camera_cells (camera (fst (frame_step h ob (sc, g)))))
       else buffer_store g (cameraUbo h))"
    unfolding frame_step_shown [OF assms(2)] snd_conv fst_conv fixed_part_state(1)
    by (rule menu_store(1) [OF i])
  show "buffer_store (snd (frame_step h ob (sc, g))) (lightUbo h) =
      (if light_edited (ui ob)
       then Some (concat (map Light_cells (light (fst (frame_step h ob (sc, g))))))
       else buffer_store g (lightUbo h))"
    unfolding frame_step_shown [OF assms(2)] snd_conv fst_conv fixed_part_state(1)
    by (rule menu_store(2) [OF i])
  show "buffer_store (snd (frame_step h ob (sc, g))) (materialUbo h) =
      (if material_edited (ui ob)
       then Some (concat (map Material_cells (material (fst (frame_step h ob (sc, g))))))
       else buffer_store g (materialUbo h))"
    unfolding frame_step_shown [OF assms(2)] snd_conv fst_conv fixed_part_state(1)
    by (rule menu_store(3) [OF i])
qed

subsection \<open>The claims about the loop\<close>

lemma menu_calls_eq:
  "snd (menu h e sc) =
     (if camera_edited e then
        [BindBuffer GL_UNIFORM_BUFFER (cameraUbo h),
         BufferSubData GL_UNIFORM_BUFFER 0 sizeof_camera
           (Camera_cells (camera (fst (menu h e sc)))),
         BindBuffer GL_UNIFORM_BUFFER 0]
      else []) @
     (if light_edited e then
        [BindBuffer GL_UNIFORM_BUFFER (lightUbo h),
         BufferSubData GL_UNIFORM_BUFFER 0 sizeof_light
           (concat (map Light_cells (light (fst (menu h e sc))))),
         BindBuffer GL_UNIFORM_BUFFER 0]
      else []) @
     (if material_edited e then
        [BindBuffer GL_UNIFORM_BUFFER (materialUbo h),
         BufferSubData GL_UNIFORM_BUFFER 0 sizeof_material
           (concat (map Material_cells (material (fst (menu h e sc))))),
         BindBuffer GL_UNIFORM_BUFFER 0]
      else [])"
proof -
  define r1 where "r1 = camera_section h e (sc\<lparr>showMenu := ev_open e\<rparr>)"
  define r2 where "r2 = light_section h e (fst r1)"
  define r3 where "r3 = material_section h e (fst r2)"
  have m: "menu h e sc = (fst r3, snd r1 @ snd r2 @ snd r3)"
    by (simp add: menu_eq Let_def r1_def r2_def r3_def)
  have c: "camera (fst r3) = camera (fst r1)" "light (fst r3) = light (fst r2)"
    by (simp_all add: r3_def r2_def material_section_scene light_section_scene)
  have "snd r1 = (if camera_edited e then
        [BindBuffer GL_UNIFORM_BUFFER (cameraUbo h),
         BufferSubData GL_UNIFORM_BUFFER 0 sizeof_camera (Camera_cells (camera (fst r3))),
         BindBuffer GL_UNIFORM_BUFFER 0] else [])"
    unfolding c unfolding r1_def by (rule camera_section_calls)
  moreover have "snd r2 = (if light_edited e then
        [BindBuffer GL_UNIFORM_BUFFER (lightUbo h),
         BufferSubData GL_UNIFORM_BUFFER 0 sizeof_light
           (concat (map Light_cells (light (fst r3)))),
         BindBuffer GL_UNIFORM_BUFFER 0] else [])"
    unfolding c unfolding r2_def by (rule light_section_calls)
  moreover have "snd r3 = (if material_edited e then
        [BindBuffer GL_UNIFORM_BUFFER (materialUbo h),
         BufferSubData GL_UNIFORM_BUFFER 0 sizeof_material
           (concat (map Material_cells (material (fst r3)))),
         BindBuffer GL_UNIFORM_BUFFER 0] else [])"
    unfolding r3_def by (rule material_section_calls)
  ultimately show ?thesis
    unfolding m fst_conv snd_conv by simp
qed

lemma fixed_part_writes:
  "filter is_buffer_write (dispatch_calls h) = []"
  "filter is_buffer_write (blit_calls h ob) = []"
  unfolding dispatch_calls_def blit_calls_def by simp_all

lemma frame_writes:
  assumes "showMenu sc \<or> tab_key ob"
  shows "filter is_buffer_write (snd (frame h ob sc)) =
     (if camera_edited (ui ob) then
        [BufferSubData GL_UNIFORM_BUFFER 0 sizeof_camera
           (Camera_cells (camera (fst (frame h ob sc))))] else []) @
     (if light_edited (ui ob) then
        [BufferSubData GL_UNIFORM_BUFFER 0 sizeof_light
           (concat (map Light_cells (light (fst (frame h ob sc)))))] else []) @
     (if material_edited (ui ob) then
        [BufferSubData GL_UNIFORM_BUFFER 0 sizeof_material
           (concat (map Material_cells (material (fst (frame h ob sc)))))] else [])"
proof -
  have f: "frame h ob sc =
      (fst (menu h (ui ob) (sc\<lparr>showMenu := True\<rparr>)),
       snd (menu h (ui ob) (sc\<lparr>showMenu := True\<rparr>)) @
         dispatch_calls h @ blit_calls h ob @ [SwapBuffers])"
    using assms by (simp add: frame_eq Let_def)
  show ?thesis
    unfolding f fst_conv snd_conv
    by (subst menu_calls_eq) (simp add: fixed_part_writes)
qed

lemma frame_step_fst: "fst (frame_step h ob s) = fst (frame h ob (fst s))"
  by (simp add: frame_step_def split_def Let_def)

lemma store_sizes:
  assumes "main_inv h (sc, g)"
  shows "map_option (\<lambda>d. 4 * length d) (buffer_store g (cameraUbo h)) = Some sizeof_camera"
    and "map_option (\<lambda>d. 4 * length d) (buffer_store g (lightUbo h)) = Some sizeof_light"
    and "map_option (\<lambda>d. 4 * length d) (buffer_store g (materialUbo h)) = Some sizeof_material"
  using assms by (auto simp: main_inv_def sizes)

text \<open>
  C3. In any iteration that shows the panel, at any point of any run: when a control of the
  selected light reports a change and no control of the camera or of a material does, the
  only write to a data store in the iteration is one \<^verbatim>\<open>glBufferSubData\<close> at offset 0 with
  the size of the whole light buffer and the cells of the whole light array as it is after
  the edit; afterwards the light buffer holds exactly these cells, and the camera and
  material buffers hold what they held before the iteration. Likewise, with light and
  material exchanged, for an edit of a material.
\<close>

theorem edit_sync_isolation:
  "let h = fst (init env);
       s = after_frames h pre (snd (init env));
       s' = frame_step h ob s
   in ((showMenu (fst s) \<or> tab_key ob) \<and> light_edited (ui ob) \<and>
       \<not> camera_edited (ui ob) \<and> \<not> material_edited (ui ob) \<longrightarrow>
         filter is_buffer_write (snd (frame h ob (fst s))) =
           [BufferSubData GL_UNIFORM_BUFFER 0 sizeof_light
              (concat (map Light_cells (light (fst s'))))] \<and>
         map_option (\<lambda>d. 4 * length d) (buffer_store (snd s) (lightUbo h)) = Some sizeof_light \<and>
         buffer_store (snd s') (lightUbo h) = Some (concat (map Light_cells (light (fst s')))) \<and>
         buffer_store (snd s') (cameraUbo h) = buffer_store (snd s) (cameraUbo h) \<and>
         buffer_store (snd s') (materialUbo h) = buffer_store (snd s) (materialUbo h)) \<and>
      ((showMenu (fst s) \<or> tab_key ob) \<and> material_edited (ui ob) \<and>
       \<not> camera_edited (ui ob) \<and> \<not> light_edited (ui ob) \<longrightarrow>
         filter is_buffer_write (snd (frame h ob (fst s))) =
           [BufferSubData GL_UNIFORM_BUFFER 0 sizeof_material
              (concat (map Material_cells (material (fst s'))))] \<and>
         map_option (\<lambda>d. 4 * length d) (buffer_store (snd s) (materialUbo h)) =
           Some sizeof_material \<and>
         buffer_store (snd s') (materialUbo h) =
           Some (concat (map Material_cells (material (fst s')))) \<and>
         buffer_store (snd s') (cameraUbo h) = buffer_store (snd s) (cameraUbo h) \<and>
         buffer_store (snd s') (lightUbo h) = buffer_store (snd s) (lightUbo h))"
proof -
  define h where "h = fst (init env)"
  define s where "s = after_frames h pre (snd (init env))"
  obtain sc g where sg: "s = (sc, g)" by (cases s)
  have i: "main_inv h (sc, g)"
    using reachable_inv [of env pre] by (simp add: h_def s_def sg [symmetric])
  show ?thesis
    unfolding Let_def h_def [symmetric] s_def [symmetric] sg frame_step_fst fst_conv snd_conv
    by (intro conjI impI; elim conjE)
       (simp_all add: frame_step_store [OF i] frame_step_fst frame_writes store_sizes [OF i])
qed

theorem edit_sync_isolation_witness:
  "((showMenu (fst (after_frames (fst (init env_example)) [] (snd (init env_example)))) \<or>
       tab_key ob_light_edit) \<and>
     light_edited (ui ob_light_edit) \<and> \<not> camera_edited (ui ob_light_edit) \<and>
     \<not> material_edited (ui ob_light_edit)) \<and>
   buffer_store (snd (frame_step (fst (init env_example)) ob_light_edit
       (after_frames (fst (init env_example)) [] (snd (init env_example)))))
     (lightUbo (fst (init env_example))) =
     Some (concat (map Light_cells (light (fst (frame_step (fst (init env_example))
       ob_light_edit (after_frames (fst (init env_example)) [] (snd (init env_example)))))))) \<and>
   ((showMenu (fst (after_frames (fst (init env_example)) [ob_light_edit]
         (snd (init env_example)))) \<or> tab_key ob_material_edit) \<and>
     material_edited (ui ob_material_edit) \<and> \<not> camera_edited (ui ob_material_edit) \<and>
     \<not> light_edited (ui ob_material_edit)) \<and>
   buffer_store (snd (frame_step (fst (init env_example)) ob_material_edit
       (after_frames (fst (init env_example)) [ob_light_edit] (snd (init env_example)))))
     (lightUbo (fst (init env_example))) =
     buffer_store (snd (after_frames (fst (init env_example)) [ob_light_edit]
       (snd (init env_example)))) (lightUbo (fst (init env_example)))"
proof -
  have e1: "tab_key ob_light_edit" "light_edited (ui ob_light_edit)"
    "\<not> camera_edited (ui ob_light_edit)" "\<not> material_edited (ui ob_light_edit)"
    by (simp_all add: ob_light_edit_def ui_none_def light_edited_def camera_edited_def
        material_edited_def)
  have e2: "tab_key ob_material_edit" "material_edited (ui ob_material_edit)"
    "\<not> camera_edited (ui ob_material_edit)" "\<not> light_edited (ui ob_material_edit)"
    by (simp_all add: ob_material_edit_def ui_none_def light_edited_def camera_edited_def
        material_edited_def)
  note t1 = edit_sync_isolation [of env_example "[]" ob_light_edit, unfolded Let_def]
  note t2 = edit_sync_isolation [of env_example "[ob_light_edit]" ob_material_edit,
      unfolded Let_def]
  show ?thesis
    using e1 e2 t1 t2 by blast
qed





text \<open>
  C10. Both lights start with the fourth component of their position equal to one, and
  after any number of iterations, whatever the panel reports, it is still one for both.
\<close>

theorem lights_stay_point_lights:
  "light_w light_initial = [1, 1] \<and>
   light_w (light (fst (after_frames (fst (init env)) pre (snd (init env))))) = [1, 1]"
  using reachable_inv [of env pre]
  by (simp add: main_inv_def light_w_def light_initial_def)


text \<open>
  C9. \<^verbatim>\<open>main\<close> ends with an exception exactly when the window was not created or, with the
  window there, the shader handle is zero; the two checks come before anything else, and
  nothing else makes \<^verbatim>\<open>main\<close> fail. Otherwise the loop runs, and when it ends \<^verbatim>\<open>main\<close>
  returns 0.
\<close>

theorem main_outcome:
  "map_option (map_sum id fst) (main env obs) =
     (if \<not> env_window env then Some (Inl WindowCreationFailed)
      else if env_shader env = 0 then Some (Inl ShaderLoadFailed)
      else if list_all live obs then None
      else Some (Inr 0))"
  by (simp add: main_def main_loop_eq split_def Let_def)

end
